theory Spec2Isabelle
  imports Complex_Main
begin

section \<open>JavaScript values as the server handles them\<close>

text \<open>
  The server is the Express application in \<^verbatim>\<open>src/server/keep-alive.js\<close>, lines 25
  to 836 (the file continues with an earlier copy of the gateway, which has the
  same check, cancel, find and webhook handlers). It receives JSON request bodies
  and applies JavaScript's truthiness, strict equality and \<^verbatim>\<open>Number\<close> conversion to
  them. A JavaScript number is either
  \<^verbatim>\<open>NaN\<close> or a finite value; finite values are carried as rationals (the handlers
  only store, compare and increment them, so rounding of doubles and the infinities
  play no part). An object is the list of its members as parsed, a later member
  with the same key overriding an earlier one, as \<^verbatim>\<open>JSON.parse\<close> does.
\<close>

datatype jsnum = NaN | Fin rat

datatype jsval =
    JUndefined
  | JNull
  | JBool bool
  | JNum jsnum
  | JStr string
  | JArr "jsval list"
  | JObj "(string \<times> jsval) list"

text \<open>Truthiness: \<^verbatim>\<open>undefined\<close>, \<^verbatim>\<open>null\<close>, \<^verbatim>\<open>false\<close>, \<^verbatim>\<open>0\<close>, \<^verbatim>\<open>NaN\<close> and the empty
  string are falsy; every array and object is truthy.\<close>

fun truthy :: "jsval \<Rightarrow> bool" where
  "truthy JUndefined = False"
| "truthy JNull = False"
| "truthy (JBool b) = b"
| "truthy (JNum NaN) = False"
| "truthy (JNum (Fin r)) = (r \<noteq> 0)"
| "truthy (JStr s) = (s \<noteq> [])"
| "truthy (JArr xs) = True"
| "truthy (JObj kvs) = True"

text \<open>\<^verbatim>\<open>a || b\<close>\<close>

definition js_or :: "jsval \<Rightarrow> jsval \<Rightarrow> jsval" where
  "js_or a b = (if truthy a then a else b)"

text \<open>\<^verbatim>\<open>a === b\<close> between a stored value and a value of the current request:
  \<^verbatim>\<open>NaN\<close> equals nothing; arrays and objects are compared by reference, and the
  two sides come from different requests, so they are never the same object.\<close>

fun strict_eq :: "jsval \<Rightarrow> jsval \<Rightarrow> bool" where
  "strict_eq JUndefined JUndefined = True"
| "strict_eq JNull JNull = True"
| "strict_eq (JBool a) (JBool b) = (a = b)"
| "strict_eq (JNum (Fin a)) (JNum (Fin b)) = (a = b)"
| "strict_eq (JStr a) (JStr b) = (a = b)"
| "strict_eq _ _ = False"

text \<open>\<^verbatim>\<open>Number(v)\<close>. The conversion of the primitives is fixed by the language.
  A string is parsed by the platform's string-to-number grammar, and an array or
  object is first turned into a string; that part of the platform is the parameter
  \<open>conv\<close>, so every theorem below holds whatever it computes.\<close>

fun Number :: "(jsval \<Rightarrow> jsnum) \<Rightarrow> jsval \<Rightarrow> jsnum" where
  "Number conv JUndefined = NaN"
| "Number conv JNull = Fin 0"
| "Number conv (JBool b) = (if b then Fin 1 else Fin 0)"
| "Number conv (JNum n) = n"
| "Number conv v = conv v"

text \<open>Reading a member of a parsed JSON object: \<^verbatim>\<open>undefined\<close> when it is absent.\<close>

definition js_prop :: "(string \<times> jsval) list \<Rightarrow> string \<Rightarrow> jsval" where
  "js_prop kvs k = (case map_of (rev kvs) k of None \<Rightarrow> JUndefined | Some v \<Rightarrow> v)"

text \<open>\<^verbatim>\<open>Array.prototype.findIndex\<close>: the first index whose element satisfies the
  predicate, \<open>-1\<close> when there is none.\<close>

fun findIndex :: "('a \<Rightarrow> bool) \<Rightarrow> 'a list \<Rightarrow> int" where
  "findIndex P [] = -1"
| "findIndex P (x # xs) =
     (if P x then 0
      else (let i = findIndex P xs in if i = -1 then -1 else i + 1))"

section \<open>The file-backed workout store\<close>

text \<open>
  A stored workout is the object built by \<^verbatim>\<open>POST /api/workouts\<close>; \<open>updated_at\<close> is
  \<^verbatim>\<open>undefined\<close> until the first update. The fields \<open>id\<close> and \<open>type\<close> of the source
  are \<open>id_w\<close> and \<open>type_w\<close> here, and \<open>notes\<close> is \<open>notes_w\<close>.
\<close>

record workout =
  id_w :: jsval
  user_id :: jsval
  type_w :: jsval
  duration :: jsval
  calories :: jsval
  notes_w :: jsval
  ai_analysis :: jsval
  created_at :: jsval
  updated_at :: jsval

text \<open>The module variables \<^verbatim>\<open>workouts\<close> and \<^verbatim>\<open>nextWorkoutId\<close>, and the content of
  \<^verbatim>\<open>workouts.json\<close> (\<open>None\<close>: no file yet).\<close>

record store =
  workouts :: "workout list"
  nextWorkoutId :: rat
  disk_file :: "(workout list \<times> rat) option"

text \<open>\<^verbatim>\<open>saveWorkouts\<close> overwrites the file with both variables; a failing write is
  caught and logged, which leaves the file as it was. \<open>disk\<close> tells whether the write
  succeeds.\<close>

definition saveWorkouts :: "bool \<Rightarrow> store \<Rightarrow> store" where
  "saveWorkouts disk s =
     (if disk then s\<lparr>disk_file := Some (workouts s, nextWorkoutId s)\<rparr> else s)"

datatype wbody =
    ErrorBody string
  | WorkoutBody workout
  | WorkoutsBody "workout list"
  | SuccessBody string

datatype 'b response = Response (status: nat) (body: 'b)

text \<open>\<^verbatim>\<open>GET /api/workouts/:userId\<close>\<close>

definition get_workouts :: "string \<Rightarrow> store \<Rightarrow> wbody response" where
  "get_workouts userId s =
     Response 200
       (WorkoutsBody (filter (\<lambda>w. strict_eq (user_id w) (JStr userId)) (workouts s)))"

text \<open>\<^verbatim>\<open>POST /api/workouts\<close>; \<open>now\<close> is \<^verbatim>\<open>new Date().toISOString()\<close>.\<close>

definition post_workouts ::
  "(jsval \<Rightarrow> jsnum) \<Rightarrow> string \<Rightarrow> bool \<Rightarrow> (string \<times> jsval) list \<Rightarrow> store
     \<Rightarrow> wbody response \<times> store" where
  "post_workouts conv now disk reqbody s =
     (let uid = js_prop reqbody ''user_id'';
          ty = js_prop reqbody ''type'';
          dur = js_prop reqbody ''duration'';
          cal = js_prop reqbody ''calories'';
          nts = js_prop reqbody ''notes'';
          ana = js_prop reqbody ''ai_analysis''
      in if \<not> truthy uid \<or> \<not> truthy ty \<or> \<not> truthy dur \<or> strict_eq cal JUndefined
         then (Response 400
                 (ErrorBody ''Missing required fields: user_id, type, duration, calories''), s)
         else
           (let w = \<lparr> id_w = JNum (Fin (nextWorkoutId s)),
                      user_id = uid,
                      type_w = ty,
                      duration = JNum (Number conv dur),
                      calories = JNum (Number conv cal),
                      notes_w = js_or nts JNull,
                      ai_analysis = js_or ana JNull,
                      created_at = JStr now,
                      updated_at = JUndefined \<rparr>;
                s1 = s\<lparr>nextWorkoutId := nextWorkoutId s + 1,
                       workouts := workouts s @ [w]\<rparr>
            in (Response 201 (WorkoutBody w), saveWorkouts disk s1)))"

text \<open>The test both \<^verbatim>\<open>PUT\<close> and \<^verbatim>\<open>DELETE\<close> give to \<^verbatim>\<open>findIndex\<close>:
  \<^verbatim>\<open>w.id === Number(id) && w.user_id === user_id\<close>, with \<open>id\<close> the path parameter.\<close>

definition owned_by :: "(jsval \<Rightarrow> jsnum) \<Rightarrow> string \<Rightarrow> jsval \<Rightarrow> workout \<Rightarrow> bool" where
  "owned_by conv ident uid w \<longleftrightarrow>
     strict_eq (id_w w) (JNum (Number conv (JStr ident))) \<and> strict_eq (user_id w) uid"

text \<open>\<^verbatim>\<open>PUT /api/workouts/:id\<close>\<close>

definition put_workouts ::
  "(jsval \<Rightarrow> jsnum) \<Rightarrow> string \<Rightarrow> bool \<Rightarrow> string \<Rightarrow> (string \<times> jsval) list \<Rightarrow> store
     \<Rightarrow> wbody response \<times> store" where
  "put_workouts conv now disk ident reqbody s =
     (let uid = js_prop reqbody ''user_id'';
          ty = js_prop reqbody ''type'';
          dur = js_prop reqbody ''duration'';
          cal = js_prop reqbody ''calories'';
          nts = js_prop reqbody ''notes'';
          ana = js_prop reqbody ''ai_analysis'';
          workoutIndex = findIndex (owned_by conv ident uid) (workouts s)
      in if workoutIndex = -1
         then (Response 404 (ErrorBody ''Workout not found''), s)
         else
           (let old = workouts s ! nat workoutIndex;
                w = old\<lparr> type_w := js_or ty (type_w old),
                          duration := (if dur \<noteq> JUndefined then JNum (Number conv dur)
                                       else duration old),
                          calories := (if cal \<noteq> JUndefined then JNum (Number conv cal)
                                       else calories old),
                          notes_w := (if nts \<noteq> JUndefined then nts else notes_w old),
                          ai_analysis := (if ana \<noteq> JUndefined then ana else ai_analysis old),
                          updated_at := JStr now \<rparr>;
                s1 = s\<lparr>workouts := (workouts s)[nat workoutIndex := w]\<rparr>
            in (Response 200 (WorkoutBody w), saveWorkouts disk s1)))"

text \<open>\<^verbatim>\<open>DELETE /api/workouts/:id?user_id=...\<close>; \<open>uid\<close> is \<^verbatim>\<open>req.query.user_id\<close>.
  \<^verbatim>\<open>splice(workoutIndex, 1)\<close> removes the element at that index.\<close>

definition delete_workouts ::
  "(jsval \<Rightarrow> jsnum) \<Rightarrow> bool \<Rightarrow> string \<Rightarrow> jsval \<Rightarrow> store \<Rightarrow> wbody response \<times> store" where
  "delete_workouts conv disk ident uid s =
     (let workoutIndex = findIndex (owned_by conv ident uid) (workouts s)
      in if workoutIndex = -1
         then (Response 404 (ErrorBody ''Workout not found''), s)
         else
           (let s1 = s\<lparr>workouts := take (nat workoutIndex) (workouts s)
                                     @ drop (nat workoutIndex + 1) (workouts s)\<rparr>
            in (Response 200 (SuccessBody ''Workout deleted successfully''),
                saveWorkouts disk s1)))"

text \<open>The condition under which ids handed out by \<open>post_workouts\<close> are fresh positive
  integers: the counter is a positive integer and lies above every stored id. It
  holds for the empty store with counter \<open>1\<close>, the state of a server without a
  file.\<close>

definition is_integer :: "rat \<Rightarrow> bool" where
  "is_integer r \<longleftrightarrow> of_int \<lfloor>r\<rfloor> = r"

definition id_below :: "rat \<Rightarrow> workout \<Rightarrow> bool" where
  "id_below n w = (case id_w w of JNum (Fin k) \<Rightarrow> k < n | _ \<Rightarrow> False)"

definition store_ok :: "store \<Rightarrow> bool" where
  "store_ok s \<longleftrightarrow>
     is_integer (nextWorkoutId s) \<and> 0 < nextWorkoutId s
       \<and> list_all (id_below (nextWorkoutId s)) (workouts s)"

section \<open>The analysis relay\<close>

text \<open>Member access \<^verbatim>\<open>data.name\<close> and \<^verbatim>\<open>data[name]\<close>: a \<^verbatim>\<open>TypeError\<close> on
  \<^verbatim>\<open>null\<close> and \<^verbatim>\<open>undefined\<close>, the member of an object, and \<^verbatim>\<open>undefined\<close> on every
  other value (none of the names the source reads is a built-in property of a
  string, number, boolean or array).\<close>

datatype js_error = TypeError

fun js_get :: "jsval \<Rightarrow> string \<Rightarrow> js_error + jsval" where
  "js_get JUndefined k = Inl TypeError"
| "js_get JNull k = Inl TypeError"
| "js_get (JObj kvs) k = Inr (js_prop kvs k)"
| "js_get v k = Inr JUndefined"

definition possibleFields :: "string list" where
  "possibleFields = [''output'', ''result'', ''response'', ''message'', ''analysis'']"

text \<open>The loop over \<^verbatim>\<open>possibleFields\<close>: the first member with a truthy value,
  \<^verbatim>\<open>undefined\<close> when the loop ends without one.\<close>

fun scan_fields :: "jsval \<Rightarrow> string list \<Rightarrow> js_error + jsval" where
  "scan_fields d [] = Inr JUndefined"
| "scan_fields d (f # fs) =
     (case js_get d f of
        Inl e \<Rightarrow> Inl e
      | Inr v \<Rightarrow> if truthy v then Inr v else scan_fields d fs)"

text \<open>Lines 772-789 of the server: what \<^verbatim>\<open>POST /api/ai-analysis\<close> makes of the parsed
  webhook response \<open>d\<close>, which it then sends as \<^verbatim>\<open>{analysis}\<close>; an exception is
  caught by the handler and answered 500. \<open>stringify\<close> is the platform's
  \<^verbatim>\<open>JSON.stringify\<close>.\<close>

definition extract_analysis :: "(jsval \<Rightarrow> string) \<Rightarrow> jsval \<Rightarrow> js_error + jsval" where
  "extract_analysis stringify d =
     (case d of
        JStr s \<Rightarrow> Inr d
      | _ \<Rightarrow>
         (case js_get d ''data'' of
            Inl e \<Rightarrow> Inl e
          | Inr dd \<Rightarrow>
             if truthy dd then Inr dd
             else (case scan_fields d possibleFields of
                     Inl e \<Rightarrow> Inl e
                   | Inr analysis \<Rightarrow>
                      if \<not> truthy analysis then Inr (JStr (stringify d))
                      else Inr analysis)))"

text \<open>\<^verbatim>\<open>sendToWebhook\<close> of the client (\<^verbatim>\<open>lib/supabase.ts\<close>), from the parsed response
  on: the same chain written with early returns. Every exception is replaced by
  one \<^verbatim>\<open>Error\<close>, here \<open>None\<close>.\<close>

definition sendToWebhook :: "(jsval \<Rightarrow> string) \<Rightarrow> jsval \<Rightarrow> jsval option" where
  "sendToWebhook stringify d =
     (case d of
        JStr s \<Rightarrow> Some d
      | _ \<Rightarrow>
         (case js_get d ''data'' of
            Inl e \<Rightarrow> None
          | Inr dd \<Rightarrow>
             if truthy dd then Some dd
             else (case scan_fields d possibleFields of
                     Inl e \<Rightarrow> None
                   | Inr v \<Rightarrow> if truthy v then Some v else Some (JStr (stringify d)))))"

section \<open>The payment provider as the gateway sees it\<close>

text \<open>
  The handlers of the subscription gateway call the payment provider's client
  library. The provider is an external service; the model keeps the part of its
  state the handlers read or write and gives each call the result the provider's
  API documents for it: customers and subscriptions are listed newest first,
  a list call returns at most \<open>limit\<close> entries, retrieving an unknown customer
  raises an error with code \<^verbatim>\<open>resource_missing\<close>, cancelling sets the status to
  \<^verbatim>\<open>canceled\<close>. \<open>reachable\<close> is false when the provider cannot be reached, and
  every call then raises a connection error. \<open>metadata_userId\<close> is
  \<^verbatim>\<open>customer.metadata.userId\<close>, \<open>None\<close> when the customer carries no such tag.
\<close>

datatype stripe_error = StripeError (err_code: string) (err_message: string)

record customer =
  cus_id :: string
  cus_email :: "string option"
  metadata_userId :: "string option"

record subscription =
  sub_id :: string
  sub_customer :: string
  sub_status :: string
  price_id :: "string option"
  price_interval :: "string option"
  current_period_end :: nat

record checkout_session =
  session_id :: string
  session_customer :: string
  session_price :: string

record stripe =
  customer_rows :: "customer list"
  subscription_rows :: "subscription list"
  session_rows :: "checkout_session list"
  prices :: "string list"
  reachable :: bool

definition connection_error :: stripe_error where
  "connection_error =
     StripeError ''api_connection_error'' ''An error occurred with our connection to Stripe.''"

definition customers_retrieve :: "stripe \<Rightarrow> string \<Rightarrow> stripe_error + customer" where
  "customers_retrieve st cid =
     (if \<not> reachable st then Inl connection_error
      else (case find (\<lambda>c. cus_id c = cid) (customer_rows st) of
              None \<Rightarrow> Inl (StripeError ''resource_missing'' (''No such customer: '' @ cid))
            | Some c \<Rightarrow> Inr c))"

text \<open>\<^verbatim>\<open>customers.list({email, limit})\<close>; without an email (\<open>None\<close>) the provider does
  not filter.\<close>

definition customers_list ::
  "stripe \<Rightarrow> string option \<Rightarrow> nat \<Rightarrow> stripe_error + customer list" where
  "customers_list st email limit =
     (if \<not> reachable st then Inl connection_error
      else Inr (take limit
                  (filter (\<lambda>c. email = None \<or> cus_email c = email) (customer_rows st))))"

text \<open>A metadata update: an absent value leaves the tag, an empty string removes
  it, any other string replaces it.\<close>

definition set_meta :: "string option \<Rightarrow> string option \<Rightarrow> string option" where
  "set_meta old new =
     (case new of None \<Rightarrow> old | Some u \<Rightarrow> if u = [] then None else Some u)"

definition customers_update' ::
  "stripe \<Rightarrow> string \<Rightarrow> string option \<Rightarrow> stripe_error + (customer \<times> stripe)" where
  "customers_update' st cid uid =
     (if \<not> reachable st then Inl connection_error
      else (case find (\<lambda>c. cus_id c = cid) (customer_rows st) of
              None \<Rightarrow> Inl (StripeError ''resource_missing'' (''No such customer: '' @ cid))
            | Some c \<Rightarrow>
               Inr (c\<lparr>metadata_userId := set_meta (metadata_userId c) uid\<rparr>,
                    st\<lparr>customer_rows :=
                         map (\<lambda>x. if cus_id x = cid
                                   then x\<lparr>metadata_userId := set_meta (metadata_userId x) uid\<rparr>
                                   else x)
                             (customer_rows st)\<rparr>)))"

text \<open>\<open>new_id\<close> is the identifier the provider assigns to the new object.\<close>

definition customers_create ::
  "stripe \<Rightarrow> string \<Rightarrow> string option \<Rightarrow> string option \<Rightarrow> stripe_error + (customer \<times> stripe)" where
  "customers_create st new_id uid email =
     (if \<not> reachable st then Inl connection_error
      else (let c = \<lparr>cus_id = new_id, cus_email = email, metadata_userId = set_meta None uid\<rparr>
            in Inr (c, st\<lparr>customer_rows := c # customer_rows st\<rparr>)))"


definition subscriptions_list ::
  "stripe \<Rightarrow> string \<Rightarrow> string option \<Rightarrow> nat \<Rightarrow> stripe_error + subscription list" where
  "subscriptions_list st cid wanted limit =
     (if \<not> reachable st then Inl connection_error
      else Inr (take limit
                  (filter (\<lambda>x. sub_customer x = cid
                               \<and> (case wanted of
                                     None \<Rightarrow> sub_status x \<noteq> ''canceled''
                                   | Some v \<Rightarrow> sub_status x = v))
                          (subscription_rows st))))"

definition subscriptions_cancel :: "stripe \<Rightarrow> string \<Rightarrow> stripe_error + stripe" where
  "subscriptions_cancel st sid =
     (if \<not> reachable st then Inl connection_error
      else (case find (\<lambda>x. sub_id x = sid) (subscription_rows st) of
              None \<Rightarrow> Inl (StripeError ''resource_missing'' (''No such subscription: '' @ sid))
            | Some x \<Rightarrow>
               Inr (st\<lparr>subscription_rows :=
                         map (\<lambda>y. if sub_id y = sid then y\<lparr>sub_status := ''canceled''\<rparr> else y)
                             (subscription_rows st)\<rparr>)))"

text \<open>\<^verbatim>\<open>checkout.sessions.create\<close>: the provider refuses a price it does not know.\<close>

definition checkout_sessions_create ::
  "stripe \<Rightarrow> string \<Rightarrow> string \<Rightarrow> string option
     \<Rightarrow> stripe_error + (checkout_session \<times> stripe)" where
  "checkout_sessions_create st new_id cid price =
     (if \<not> reachable st then Inl connection_error
      else (case price of
              None \<Rightarrow> Inl (StripeError ''parameter_missing'' ''Missing required param: price.'')
            | Some p \<Rightarrow>
               if p \<notin> set (prices st)
               then Inl (StripeError ''resource_missing'' (''No such price: '' @ p))
               else (let x = \<lparr>session_id = new_id, session_customer = cid, session_price = p\<rparr>
                     in Inr (x, st\<lparr>session_rows := x # session_rows st\<rparr>))))"

text \<open>Whether the provider holds an active subscription of customer \<open>cid\<close>.\<close>

definition has_active :: "stripe \<Rightarrow> string \<Rightarrow> bool" where
  "has_active st cid \<longleftrightarrow>
     list_ex (\<lambda>x. sub_customer x = cid \<and> sub_status x = ''active'') (subscription_rows st)"

text \<open>The provider's state once every customer with id \<open>cid\<close> carries the owner tag
  \<open>u\<close>.\<close>

definition retag :: "stripe \<Rightarrow> string \<Rightarrow> string \<Rightarrow> stripe" where
  "retag st cid u =
     st\<lparr>customer_rows :=
          map (\<lambda>x. if cus_id x = cid then x\<lparr>metadata_userId := Some u\<rparr> else x)
              (customer_rows st)\<rparr>"

text \<open>The active subscriptions of customer \<open>cid\<close>, in the provider's order.\<close>

definition active_of :: "stripe \<Rightarrow> string \<Rightarrow> subscription list" where
  "active_of st cid =
     filter (\<lambda>x. sub_customer x = cid \<and> sub_status x = ''active'') (subscription_rows st)"

text \<open>What the provider does, not the server: when the customer pays the hosted
  checkout session \<open>sid\<close>, which the gateway opened in \<^verbatim>\<open>mode: 'subscription'\<close>, the
  provider opens an active subscription of the session's customer to the session's
  price. It does so whatever other sessions or subscriptions the customer has.
  \<open>new_sub\<close> is the id it assigns; \<open>iv\<close> and \<open>period_end\<close> are the billing interval of the
  price and the end of the first period.\<close>

definition checkout_completed ::
  "stripe \<Rightarrow> string \<Rightarrow> string \<Rightarrow> string option \<Rightarrow> nat \<Rightarrow> stripe" where
  "checkout_completed st sid new_sub iv period_end =
     (case find (\<lambda>x. session_id x = sid) (session_rows st) of
        None \<Rightarrow> st
      | Some x \<Rightarrow>
          st\<lparr>subscription_rows :=
               \<lparr>sub_id = new_sub, sub_customer = session_customer x, sub_status = ''active'',
                price_id = Some (session_price x), price_interval = iv,
                current_period_end = period_end\<rparr> # subscription_rows st\<rparr>)"

section \<open>The subscription gateway\<close>




record cancel_body =
  success :: bool
  cancel_message :: "string option"
  cancel_error :: "string option"
  cancel_clearData :: "bool option"

text \<open>The loop \<^verbatim>\<open>for (const subscription of subscriptions.data)\<close>: it stops at the
  first call that raises, and what was cancelled before stays cancelled.\<close>

fun cancel_each :: "subscription list \<Rightarrow> stripe \<Rightarrow> stripe_error option \<times> stripe" where
  "cancel_each [] st = (None, st)"
| "cancel_each (x # xs) st =
     (case subscriptions_cancel st (sub_id x) of
        Inl e \<Rightarrow> (Some e, st)
      | Inr st' \<Rightarrow> cancel_each xs st')"

definition cancel_failed :: cancel_body where
  "cancel_failed =
     \<lparr>success = False, cancel_message = None,
      cancel_error =
        Some ''Failed to cancel subscription. Please try again or contact support.'',
      cancel_clearData = None\<rparr>"

text \<open>\<^verbatim>\<open>POST /cancel-subscription/:customerId/:userId\<close>\<close>

definition cancel_subscription ::
  "string \<Rightarrow> string \<Rightarrow> stripe \<Rightarrow> cancel_body response \<times> stripe" where
  "cancel_subscription customerId userId st =
     (case customers_retrieve st customerId of
        Inl e \<Rightarrow>
          if err_code e = ''resource_missing''
          then (Response 404
                  \<lparr>success = False, cancel_message = None,
                   cancel_error = Some (''Customer not found. Your stored subscription ''
                                         @ ''data is invalid and needs to be cleared.''),
                   cancel_clearData = Some True\<rparr>, st)
          else (Response 500 cancel_failed, st)
      | Inr customer \<Rightarrow>
          if metadata_userId customer \<noteq> Some userId
          then (Response 403
                  \<lparr>success = False, cancel_message = None,
                   cancel_error = Some ''Unauthorized: Customer does not belong to user'',
                   cancel_clearData = None\<rparr>, st)
          else
            (case subscriptions_list st customerId (Some ''active'') 1 of
               Inl e \<Rightarrow> (Response 500 cancel_failed, st)
             | Inr subs \<Rightarrow>
                 if length subs = 0
                 then (Response 200
                         \<lparr>success = True, cancel_message = Some ''No active subscription found'',
                          cancel_error = None, cancel_clearData = None\<rparr>, st)
                 else
                   (case cancel_each subs st of
                      (Some e, st') \<Rightarrow> (Response 500 cancel_failed, st')
                    | (None, st') \<Rightarrow>
                        (Response 200
                           \<lparr>success = True,
                            cancel_message = Some ''Subscription cancelled successfully'',
                            cancel_error = None, cancel_clearData = None\<rparr>, st'))))"

datatype find_body = FindError string | FindResult (found_customerId: "string option")

text \<open>The loop of \<^verbatim>\<open>POST /find-customer-by-email\<close> over \<^verbatim>\<open>customers.data\<close>: the
  answer of the first iteration that returns, \<open>customerId: null\<close> when none does.\<close>

fun find_loop :: "string \<Rightarrow> customer list \<Rightarrow> stripe \<Rightarrow> find_body response \<times> stripe" where
  "find_loop userId [] st = (Response 200 (FindResult None), st)"
| "find_loop userId (customer # rest) st =
     (if metadata_userId customer = Some userId
      then (Response 200 (FindResult (Some (cus_id customer))), st)
      else
        (case subscriptions_list st (cus_id customer) (Some ''active'') 1 of
           Inl e \<Rightarrow> (Response 500 (FindError ''Failed to find customer''), st)
         | Inr subs \<Rightarrow>
             if length subs > 0
             then (case customers_update' st (cus_id customer) (Some userId) of
                     Inl e \<Rightarrow> (Response 500 (FindError ''Failed to find customer''), st)
                   | Inr (c, st') \<Rightarrow>
                       (Response 200 (FindResult (Some (cus_id customer))), st'))
             else find_loop userId rest st))"

text \<open>\<^verbatim>\<open>!v\<close> for a body field that is a string when present.\<close>

definition absent :: "string option \<Rightarrow> bool" where
  "absent v \<longleftrightarrow> v = None \<or> v = Some []"

definition find_customer_by_email ::
  "string option \<Rightarrow> string option \<Rightarrow> stripe \<Rightarrow> find_body response \<times> stripe" where
  "find_customer_by_email email userId st =
     (if absent email \<or> absent userId
      then (Response 400 (FindError ''Email and userId are required''), st)
      else
        (case userId of
           None \<Rightarrow> (Response 400 (FindError ''Email and userId are required''), st)
         | Some u \<Rightarrow>
             (case customers_list st email 10 of
                Inl e \<Rightarrow> (Response 500 (FindError ''Failed to find customer''), st)
              | Inr found \<Rightarrow> find_loop u found st)))"

datatype checkout_body =
    CheckoutError string
  | CheckoutSession (checkout_id: string) (checkout_customerId: string)

definition already_subscribed :: string where
  "already_subscribed =
     ''You already have an active subscription. Please cancel your current ''
       @ ''subscription before creating a new one.''"

text \<open>The second half of \<^verbatim>\<open>POST /create-checkout-session\<close>, once \<open>customer\<close> is
  determined.\<close>

definition checkout_for ::
  "string option \<Rightarrow> string \<Rightarrow> customer \<Rightarrow> stripe \<Rightarrow> checkout_body response \<times> stripe" where
  "checkout_for price new_session customer st =
     (case subscriptions_list st (cus_id customer) (Some ''active'') 1 of
        Inl e \<Rightarrow> (Response 500 (CheckoutError (err_message e)), st)
      | Inr existingSubscriptions \<Rightarrow>
          if length existingSubscriptions > 0
          then (Response 400 (CheckoutError already_subscribed), st)
          else
            (case checkout_sessions_create st new_session (cus_id customer) price of
               Inl e \<Rightarrow> (Response 500 (CheckoutError (err_message e)), st)
             | Inr (session, st') \<Rightarrow>
                 (Response 200 (CheckoutSession (session_id session) (cus_id customer)), st')))"

text \<open>\<^verbatim>\<open>POST /create-checkout-session\<close>; \<open>new_customer\<close> and \<open>new_session\<close> are the
  identifiers the provider assigns if a customer or a session is created.\<close>

definition create_checkout_session ::
  "string option \<Rightarrow> string option \<Rightarrow> string option \<Rightarrow> string \<Rightarrow> string \<Rightarrow> stripe
     \<Rightarrow> checkout_body response \<times> stripe" where
  "create_checkout_session price userId email new_customer new_session st =
     (case customers_list st email 1 of
        Inl e \<Rightarrow> (Response 500 (CheckoutError (err_message e)), st)
      | Inr existingCustomers \<Rightarrow>
          (case existingCustomers of
             customer # rest \<Rightarrow>
               if metadata_userId customer \<noteq> userId
               then (case customers_update' st (cus_id customer) userId of
                       Inl e \<Rightarrow> (Response 500 (CheckoutError (err_message e)), st)
                     | Inr (customer', st') \<Rightarrow> checkout_for price new_session customer' st')
               else checkout_for price new_session customer st
           | [] \<Rightarrow>
               (case customers_create st new_customer userId email of
                  Inl e \<Rightarrow> (Response 500 (CheckoutError (err_message e)), st)
                | Inr (customer, st') \<Rightarrow> checkout_for price new_session customer st')))"

section \<open>The webhook receiver\<close>

text \<open>
  \<^verbatim>\<open>stripe.webhooks.constructEvent(body, sig, secret)\<close> checks the signature of the
  raw body against the secret and returns the parsed event, or raises with a
  message. It is the provider library's; the handler takes it as the parameter
  \<open>constructEvent\<close>. What the handler does with an event is one line on the console,
  recorded here as the handler's trace.
\<close>

datatype trace =
    LoggedSubscription string jsval
  | LoggedUnhandled jsval
  | LoggedWebhookError string

datatype hbody = Received bool | WebhookError string

definition subscription_events :: "string list" where
  "subscription_events =
     [''customer.subscription.created'', ''customer.subscription.updated'',
      ''customer.subscription.deleted'']"

text \<open>The \<^verbatim>\<open>switch\<close> on \<^verbatim>\<open>event.type\<close>; a \<^verbatim>\<open>TypeError\<close> raised while reading the event
  reaches the same \<^verbatim>\<open>catch\<close> as a failed verification (the model leaves the text of
  its message empty).\<close>

definition process_event :: "jsval \<Rightarrow> js_error + trace" where
  "process_event event =
     (case js_get event ''type'' of
        Inl e \<Rightarrow> Inl e
      | Inr ty \<Rightarrow>
          (case ty of
             JStr name \<Rightarrow>
               if name \<in> set subscription_events
               then (case js_get event ''data'' of
                       Inl e \<Rightarrow> Inl e
                     | Inr d \<Rightarrow>
                         (case js_get d ''object'' of
                            Inl e \<Rightarrow> Inl e
                          | Inr obj \<Rightarrow> Inr (LoggedSubscription name obj)))
               else Inr (LoggedUnhandled ty)
           | _ \<Rightarrow> Inr (LoggedUnhandled ty)))"

text \<open>\<^verbatim>\<open>POST /webhook\<close>: \<open>raw\<close> is the raw body, \<open>sig\<close> the \<^verbatim>\<open>stripe-signature\<close> header
  (\<open>None\<close> when the request has none), \<open>secret\<close> the configured signing secret.
  The handler touches neither the workout store nor the provider; its only
  effect besides the response is its trace.\<close>

definition webhook ::
  "(string \<Rightarrow> string option \<Rightarrow> string option \<Rightarrow> string + jsval)
     \<Rightarrow> string \<Rightarrow> string option \<Rightarrow> string option \<Rightarrow> hbody response \<times> trace list" where
  "webhook constructEvent raw sig secret =
     (case constructEvent raw sig secret of
        Inl msg \<Rightarrow>
          (Response 400 (WebhookError (''Webhook Error: '' @ msg)), [LoggedWebhookError msg])
      | Inr event \<Rightarrow>
          (case process_event event of
             Inl e \<Rightarrow>
               (Response 400 (WebhookError ''Webhook Error: ''), [LoggedWebhookError []])
           | Inr t \<Rightarrow> (Response 200 (Received True), [t])))"

section \<open>Concrete platform functions and states\<close>

text \<open>
  The theorems below hold for every string-to-number conversion and every
  serializer. Where a concrete run needs one, these are used: \<open>example_conv\<close>
  reads a string of decimal digits, as \<^verbatim>\<open>Number\<close> does, and \<open>example_stringify\<close>
  prints \<^verbatim>\<open>null\<close>, booleans, natural numbers, strings without characters to
  escape, and arrays and objects of these, as \<^verbatim>\<open>JSON.stringify\<close> does. Neither
  is meant beyond that fragment.
\<close>

definition digits_val :: "string \<Rightarrow> nat" where
  "digits_val s = foldl (\<lambda>a c. 10 * a + (of_char c - 48)) 0 s"

definition example_conv :: "jsval \<Rightarrow> jsnum" where
  "example_conv v =
     (case v of
        JStr s \<Rightarrow> (if list_all (\<lambda>c. c \<in> set ''0123456789'') s
                   then Fin (of_nat (digits_val s)) else NaN)
      | _ \<Rightarrow> NaN)"

fun dec_string :: "nat \<Rightarrow> nat \<Rightarrow> string" where
  "dec_string 0 n = []"
| "dec_string (Suc fuel) n =
     (if n < 10 then [''0123456789'' ! n]
      else dec_string fuel (n div 10) @ [''0123456789'' ! (n mod 10)])"

fun join_comma :: "string list \<Rightarrow> string" where
  "join_comma [] = []"
| "join_comma [x] = x"
| "join_comma (x # y # ys) = x @ '','' @ join_comma (y # ys)"

fun example_stringify :: "jsval \<Rightarrow> string" where
  "example_stringify JUndefined = ''null''"
| "example_stringify JNull = ''null''"
| "example_stringify (JBool b) = (if b then ''true'' else ''false'')"
| "example_stringify (JNum NaN) = ''null''"
| "example_stringify (JNum (Fin r)) = dec_string (Suc (nat \<lfloor>r\<rfloor>)) (nat \<lfloor>r\<rfloor>)"
| "example_stringify (JStr s) = [CHR 0x22] @ s @ [CHR 0x22]"
| "example_stringify (JArr xs) = ''['' @ join_comma (map example_stringify xs) @ '']''"
| "example_stringify (JObj kvs) =
     ''{'' @ join_comma (map (\<lambda>kv. [CHR 0x22] @ fst kv @ [CHR 0x22] @ '':''
                                      @ example_stringify (snd kv)) kvs) @ ''}''"

definition alice_run :: workout where
  "alice_run =
     \<lparr> id_w = JNum (Fin 1), user_id = JStr ''alice'', type_w = JStr ''run'',
       duration = JNum (Fin 30), calories = JNum (Fin 300), notes_w = JNull,
       ai_analysis = JNull, created_at = JStr ''2024-05-01T08:00:00.000Z'',
       updated_at = JUndefined \<rparr>"

definition empty_store :: store where
  "empty_store = \<lparr>workouts = [], nextWorkoutId = 1, disk_file = None\<rparr>"

definition one_store :: store where
  "one_store = \<lparr>workouts = [alice_run], nextWorkoutId = 2, disk_file = None\<rparr>"

definition bob_walk :: workout where
  "bob_walk =
     \<lparr> id_w = JNum (Fin 1), user_id = JStr ''bob'', type_w = JStr ''walk'',
       duration = JNum (Fin 20), calories = JNum (Fin 80), notes_w = JNull,
       ai_analysis = JNull, created_at = JStr ''2024-04-30T18:00:00.000Z'',
       updated_at = JUndefined \<rparr>"

definition alice_swim :: workout where
  "alice_swim =
     \<lparr> id_w = JNum (Fin 2), user_id = JStr ''alice'', type_w = JStr ''swim'',
       duration = JNum (Fin 40), calories = JNum (Fin 350), notes_w = JStr ''easy'',
       ai_analysis = JNull, created_at = JStr ''2024-05-01T08:00:00.000Z'',
       updated_at = JUndefined \<rparr>"

text \<open>Two users' workouts: \<open>bob\<close>'s at index 0, \<open>alice\<close>'s at index 1.\<close>

definition two_store :: store where
  "two_store = \<lparr>workouts = [bob_walk, alice_swim], nextWorkoutId = 3, disk_file = None\<rparr>"

definition run_request :: "(string \<times> jsval) list" where
  "run_request =
     [(''user_id'', JStr ''alice''), (''type'', JStr ''run''),
      (''duration'', JNum (Fin 30)), (''calories'', JNum (Fin 300))]"

definition run_request_no_user :: "(string \<times> jsval) list" where
  "run_request_no_user =
     [(''type'', JStr ''run''), (''duration'', JNum (Fin 30)), (''calories'', JNum (Fin 300))]"

definition alice_update :: "(string \<times> jsval) list" where
  "alice_update = [(''user_id'', JStr ''alice''), (''duration'', JNum (Fin 45))]"

definition bob_update :: "(string \<times> jsval) list" where
  "bob_update = [(''user_id'', JStr ''bob''), (''duration'', JNum (Fin 45))]"

text \<open>A webhook response whose \<open>data\<close> member is the empty string.\<close>

definition empty_data_response :: jsval where
  "empty_data_response = JObj [(''data'', JStr []), (''output'', JStr ''y'')]"

definition cus_alice :: customer where
  "cus_alice =
     \<lparr>cus_id = ''cus_1'', cus_email = Some ''a@example.com'', metadata_userId = Some ''alice''\<rparr>"

definition cus_untagged :: customer where
  "cus_untagged =
     \<lparr>cus_id = ''cus_2'', cus_email = Some ''a@example.com'', metadata_userId = None\<rparr>"

definition sub_1 :: subscription where
  "sub_1 =
     \<lparr>sub_id = ''sub_1'', sub_customer = ''cus_1'', sub_status = ''active'',
      price_id = Some ''price_month'', price_interval = Some ''month'',
      current_period_end = 1700000000\<rparr>"

definition sub_2 :: subscription where
  "sub_2 =
     \<lparr>sub_id = ''sub_2'', sub_customer = ''cus_1'', sub_status = ''active'',
      price_id = Some ''price_year'', price_interval = Some ''year'',
      current_period_end = 1710000000\<rparr>"

definition sub_3 :: subscription where
  "sub_3 =
     \<lparr>sub_id = ''sub_3'', sub_customer = ''cus_2'', sub_status = ''active'',
      price_id = Some ''price_month'', price_interval = Some ''month'',
      current_period_end = 1700000000\<rparr>"

text \<open>One customer, tagged \<open>alice\<close>, with one active subscription.\<close>

definition provider_one :: stripe where
  "provider_one =
     \<lparr>customer_rows = [cus_alice], subscription_rows = [sub_1], session_rows = [],
      prices = [''price_month'', ''price_year''], reachable = True\<rparr>"

text \<open>The same customer without any subscription, and two checkout requests made
  for her one after the other, before either session is paid; then both are
  paid.\<close>

definition provider_idle :: stripe where
  "provider_idle =
     \<lparr>customer_rows = [cus_alice], subscription_rows = [], session_rows = [],
      prices = [''price_month'', ''price_year''], reachable = True\<rparr>"

definition first_checkout :: "checkout_body response \<times> stripe" where
  "first_checkout =
     create_checkout_session (Some ''price_month'') (Some ''alice'') (Some ''a@example.com'')
       ''cus_8'' ''cs_1'' provider_idle"

definition second_checkout :: "checkout_body response \<times> stripe" where
  "second_checkout =
     create_checkout_session (Some ''price_year'') (Some ''alice'') (Some ''a@example.com'')
       ''cus_9'' ''cs_2'' (snd first_checkout)"

definition both_paid :: stripe where
  "both_paid =
     checkout_completed
       (checkout_completed (snd second_checkout) ''cs_1'' ''sub_8'' (Some ''month'') 1700000000)
       ''cs_2'' ''sub_9'' (Some ''year'') 1710000000"

text \<open>The same customer with two active subscriptions.\<close>

definition provider_two :: stripe where
  "provider_two =
     \<lparr>customer_rows = [cus_alice], subscription_rows = [sub_2, sub_1], session_rows = [],
      prices = [''price_month'', ''price_year''], reachable = True\<rparr>"

text \<open>Two customers with one email: the newer one untagged with an active
  subscription, the older one tagged \<open>alice\<close>.\<close>

definition provider_shared :: stripe where
  "provider_shared =
     \<lparr>customer_rows = [cus_untagged, cus_alice], subscription_rows = [sub_3],
      session_rows = [], prices = [''price_month'', ''price_year''], reachable = True\<rparr>"

definition signed_event :: jsval where
  "signed_event =
     JObj [(''type'', JStr ''customer.subscription.created''),
           (''data'', JObj [(''object'', JObj [(''id'', JStr ''sub_1'')])])]"

text \<open>A verification that accepts exactly the signature \<open>t=1,v1=good\<close>.\<close>

definition example_constructEvent ::
  "string \<Rightarrow> string option \<Rightarrow> string option \<Rightarrow> string + jsval" where
  "example_constructEvent raw sig secret =
     (if sig = Some ''t=1,v1=good'' then Inr signed_event
      else Inl ''No signatures found matching the expected signature for payload.'')"

section \<open>Properties of the workout store\<close>

lemma strict_eq_JStr: "strict_eq v (JStr u) \<longleftrightarrow> v = JStr u"
  by (cases v) auto

lemma strict_eq_JUndefined: "strict_eq v JUndefined \<longleftrightarrow> v = JUndefined"
  by (cases v) auto

lemma findIndex_ge: "- 1 \<le> findIndex P xs"
  by (induction xs) (auto simp: Let_def)

lemma findIndex_none: "findIndex P xs = - 1 \<longleftrightarrow> (\<forall>x \<in> set xs. \<not> P x)"
proof (induction xs)
  case Nil
  show ?case by simp
next
  case (Cons x xs)
  have "- 1 \<le> findIndex P xs" by (rule findIndex_ge)
  with Cons show ?case by (auto simp: Let_def)
qed

lemma findIndex_found:
  "findIndex P xs \<noteq> - 1 \<Longrightarrow>
     0 \<le> findIndex P xs \<and> nat (findIndex P xs) < length xs \<and> P (xs ! nat (findIndex P xs))"
proof (induction xs)
  case Nil
  then show ?case by simp
next
  case (Cons x xs)
  show ?case
  proof (cases "P x")
    case True
    then show ?thesis by simp
  next
    case False
    with Cons.prems have ne: "findIndex P xs \<noteq> - 1" by (auto simp: Let_def split: if_splits)
    from Cons.IH [OF ne] False ne show ?thesis
      by (auto simp: Let_def nat_add_distrib)
  qed
qed

lemma example_conv_1: "example_conv (JStr ''1'') = Fin 1"
  by (simp add: example_conv_def digits_val_def)

text \<open>
  C2. An update or a delete whose id and user id match no stored workout answers
  404 with the body \<open>Workout not found\<close>, and the store (the list, the counter and
  the file) is what it was.
\<close>

theorem mismatch_not_found:
  "((\<forall>w \<in> set (workouts s). \<not> owned_by conv ident (js_prop reqbody ''user_id'') w) \<longrightarrow>
      put_workouts conv now disk ident reqbody s
        = (Response 404 (ErrorBody ''Workout not found''), s))
   \<and> ((\<forall>w \<in> set (workouts s). \<not> owned_by conv ident uid w) \<longrightarrow>
      delete_workouts conv disk ident uid s
        = (Response 404 (ErrorBody ''Workout not found''), s))"
  by (simp add: put_workouts_def delete_workouts_def Let_def findIndex_none)

theorem mismatch_not_found_witness:
  "workouts one_store = [alice_run]
   \<and> \<not> owned_by example_conv ''1'' (js_prop bob_update ''user_id'') alice_run
   \<and> put_workouts example_conv ''2024-05-02T09:00:00.000Z'' True ''1'' bob_update one_store
        = (Response 404 (ErrorBody ''Workout not found''), one_store)
   \<and> \<not> owned_by example_conv ''1'' (JStr ''bob'') alice_run
   \<and> delete_workouts example_conv True ''1'' (JStr ''bob'') one_store
        = (Response 404 (ErrorBody ''Workout not found''), one_store)"
proof -
  have w: "workouts one_store = [alice_run]"
    by (simp add: one_store_def)
  have h1: "\<not> owned_by example_conv ''1'' (js_prop bob_update ''user_id'') alice_run"
    by (simp add: alice_run_def owned_by_def bob_update_def js_prop_def)
  have h2: "\<not> owned_by example_conv ''1'' (JStr ''bob'') alice_run"
    by (simp add: alice_run_def owned_by_def)
  from w h1 h2
    mismatch_not_found [where s = one_store and conv = example_conv and ident = "''1''"
      and reqbody = bob_update and uid = "JStr ''bob''"
      and now = "''2024-05-02T09:00:00.000Z''" and disk = True]
  show ?thesis by simp
qed

text \<open>
  C3. The list for a user is exactly the stored workouts whose \<open>user_id\<close> is that
  user's id, in stored order. So for two different users \<open>A\<close> and \<open>B\<close> no workout
  of \<open>A\<close> is in the list for \<open>B\<close>, and a workout that \<open>A\<close> creates does not change
  the list for \<open>B\<close>.
\<close>

theorem list_is_owner_filter:
  "get_workouts B s
     = Response 200 (WorkoutsBody (filter (\<lambda>w. user_id w = JStr B) (workouts s)))
   \<and> (\<forall>w \<in> set (filter (\<lambda>w. user_id w = JStr B) (workouts s)).
         A \<noteq> B \<longrightarrow> user_id w \<noteq> JStr A)
   \<and> (A \<noteq> B \<longrightarrow> js_prop reqbody ''user_id'' = JStr A \<longrightarrow>
        get_workouts B (snd (post_workouts conv now disk reqbody s)) = get_workouts B s)"
  by (auto simp: get_workouts_def post_workouts_def saveWorkouts_def Let_def strict_eq_JStr)

theorem list_is_owner_filter_witness:
  "''alice'' \<noteq> ''bob'' \<and> js_prop run_request ''user_id'' = JStr ''alice''
   \<and> get_workouts ''bob'' one_store = Response 200 (WorkoutsBody [])
   \<and> get_workouts ''bob''
        (snd (post_workouts example_conv ''2024-05-02T09:00:00.000Z'' True run_request one_store))
       = Response 200 (WorkoutsBody [])
   \<and> get_workouts ''alice'' one_store = Response 200 (WorkoutsBody [alice_run])"
proof -
  have h1: "''alice'' \<noteq> ''bob''" by simp
  have h2: "js_prop run_request ''user_id'' = JStr ''alice''"
    by (simp add: run_request_def js_prop_def)
  have h3: "get_workouts ''bob'' one_store = Response 200 (WorkoutsBody [])"
    using list_is_owner_filter [where B = "''bob''" and s = one_store and A = "''alice''"]
    by (simp add: one_store_def alice_run_def)
  have h4: "get_workouts ''alice'' one_store = Response 200 (WorkoutsBody [alice_run])"
    using list_is_owner_filter [where B = "''alice''" and s = one_store and A = "''bob''"]
    by (simp add: one_store_def alice_run_def)
  from h1 h2 h3 h4
    list_is_owner_filter [where B = "''bob''" and s = one_store and A = "''alice''"
      and reqbody = run_request and conv = example_conv
      and now = "''2024-05-02T09:00:00.000Z''" and disk = True]
  show ?thesis by simp
qed

text \<open>
  C5, as the claim states it, fails: a request that carries \<open>type\<close>, \<open>duration\<close> and
  \<open>calories\<close> (the claim's own example) but no \<open>user_id\<close> is answered 400, not 201.
\<close>

theorem create_without_user_id_counterexample:
  "js_prop run_request_no_user ''type'' = JStr ''run''
   \<and> js_prop run_request_no_user ''duration'' = JNum (Fin 30)
   \<and> js_prop run_request_no_user ''calories'' = JNum (Fin 300)
   \<and> status (fst (post_workouts example_conv ''2024-05-02T09:00:00.000Z'' True
                     run_request_no_user empty_store)) = 400
   \<and> status (fst (post_workouts example_conv ''2024-05-02T09:00:00.000Z'' True
                     run_request_no_user empty_store)) \<noteq> 201"
  by (simp add: run_request_no_user_def js_prop_def post_workouts_def Let_def)

text \<open>
  C5, amended. Create answers 400 and leaves the store as it was when \<open>user_id\<close>,
  \<open>type\<close> or \<open>duration\<close> is missing or falsy, or \<open>calories\<close> is missing. Otherwise it
  answers 201 with the record it appended to the store: the id is the value of
  the counter (a positive integer that no stored workout has, when the counter is
  a positive integer above all stored ids); \<open>duration\<close> and \<open>calories\<close> are the
  \<^verbatim>\<open>Number\<close> of what was submitted, so a submitted number is stored unchanged;
  \<open>created_at\<close> is the time of the request; \<open>notes\<close> and \<open>ai_analysis\<close> are \<^verbatim>\<open>null\<close>
  when not supplied.
\<close>

theorem create_contract:
  "(\<not> truthy (js_prop reqbody ''user_id'') \<or> \<not> truthy (js_prop reqbody ''type'')
      \<or> \<not> truthy (js_prop reqbody ''duration'') \<or> js_prop reqbody ''calories'' = JUndefined
     \<longrightarrow> post_workouts conv now disk reqbody s
          = (Response 400
               (ErrorBody ''Missing required fields: user_id, type, duration, calories''), s))
   \<and> (truthy (js_prop reqbody ''user_id'') \<and> truthy (js_prop reqbody ''type'')
      \<and> truthy (js_prop reqbody ''duration'') \<and> js_prop reqbody ''calories'' \<noteq> JUndefined
     \<longrightarrow> (\<exists>w. fst (post_workouts conv now disk reqbody s) = Response 201 (WorkoutBody w)
            \<and> workouts (snd (post_workouts conv now disk reqbody s)) = workouts s @ [w]
            \<and> id_w w = JNum (Fin (nextWorkoutId s))
            \<and> (store_ok s \<longrightarrow> is_integer (nextWorkoutId s) \<and> 0 < nextWorkoutId s
                  \<and> (\<forall>v \<in> set (workouts s). id_w v \<noteq> id_w w))
            \<and> duration w = JNum (Number conv (js_prop reqbody ''duration''))
            \<and> calories w = JNum (Number conv (js_prop reqbody ''calories''))
            \<and> (\<forall>n. js_prop reqbody ''duration'' = JNum n \<longrightarrow> duration w = JNum n)
            \<and> (\<forall>n. js_prop reqbody ''calories'' = JNum n \<longrightarrow> calories w = JNum n)
            \<and> user_id w = js_prop reqbody ''user_id''
            \<and> type_w w = js_prop reqbody ''type''
            \<and> created_at w = JStr now
            \<and> (js_prop reqbody ''notes'' = JUndefined \<longrightarrow> notes_w w = JNull)
            \<and> (js_prop reqbody ''ai_analysis'' = JUndefined \<longrightarrow> ai_analysis w = JNull)))"
  apply (simp add: post_workouts_def Let_def saveWorkouts_def strict_eq_JUndefined js_or_def)
  apply (auto simp: store_ok_def list_all_iff id_below_def split: jsval.splits jsnum.splits)
  done

theorem create_contract_witness:
  "\<not> truthy (js_prop run_request_no_user ''user_id'')
   \<and> post_workouts example_conv ''2024-05-02T09:00:00.000Z'' True run_request_no_user one_store
       = (Response 400
            (ErrorBody ''Missing required fields: user_id, type, duration, calories''), one_store)
   \<and> truthy (js_prop run_request ''user_id'') \<and> truthy (js_prop run_request ''type'')
   \<and> truthy (js_prop run_request ''duration'') \<and> js_prop run_request ''calories'' \<noteq> JUndefined
   \<and> store_ok one_store
   \<and> (\<exists>w. fst (post_workouts example_conv ''2024-05-02T09:00:00.000Z'' True run_request one_store)
              = Response 201 (WorkoutBody w)
          \<and> id_w w = JNum (Fin 2) \<and> id_w w \<noteq> id_w alice_run
          \<and> duration w = JNum (Fin 30) \<and> calories w = JNum (Fin 300)
          \<and> created_at w = JStr ''2024-05-02T09:00:00.000Z''
          \<and> notes_w w = JNull \<and> ai_analysis w = JNull)"
proof -
  have h1: "\<not> truthy (js_prop run_request_no_user ''user_id'')"
    by (simp add: run_request_no_user_def js_prop_def)
  have h2: "truthy (js_prop run_request ''user_id'') \<and> truthy (js_prop run_request ''type'')
            \<and> truthy (js_prop run_request ''duration'')
            \<and> js_prop run_request ''calories'' \<noteq> JUndefined"
    by (simp add: run_request_def js_prop_def)
  have h3: "store_ok one_store"
    by (simp add: store_ok_def one_store_def alice_run_def id_below_def is_integer_def)
  have v: "js_prop run_request ''duration'' = JNum (Fin 30)"
    "js_prop run_request ''calories'' = JNum (Fin 300)"
    "js_prop run_request ''notes'' = JUndefined"
    "js_prop run_request ''ai_analysis'' = JUndefined"
    by (simp_all add: run_request_def js_prop_def)
  have a: "post_workouts example_conv ''2024-05-02T09:00:00.000Z'' True run_request_no_user
             one_store
           = (Response 400
                (ErrorBody ''Missing required fields: user_id, type, duration, calories''),
              one_store)"
    using h1 create_contract [where reqbody = run_request_no_user and s = one_store
        and conv = example_conv and now = "''2024-05-02T09:00:00.000Z''" and disk = True]
    by blast
  from h2 h3 create_contract [where reqbody = run_request and s = one_store
        and conv = example_conv and now = "''2024-05-02T09:00:00.000Z''" and disk = True]
  obtain w where w:
    "fst (post_workouts example_conv ''2024-05-02T09:00:00.000Z'' True run_request one_store)
       = Response 201 (WorkoutBody w)"
    "id_w w = JNum (Fin (nextWorkoutId one_store))"
    "\<forall>v \<in> set (workouts one_store). id_w v \<noteq> id_w w"
    "\<forall>n. js_prop run_request ''duration'' = JNum n \<longrightarrow> duration w = JNum n"
    "\<forall>n. js_prop run_request ''calories'' = JNum n \<longrightarrow> calories w = JNum n"
    "created_at w = JStr ''2024-05-02T09:00:00.000Z''"
    "js_prop run_request ''notes'' = JUndefined \<longrightarrow> notes_w w = JNull"
    "js_prop run_request ''ai_analysis'' = JUndefined \<longrightarrow> ai_analysis w = JNull"
    by blast
  from w v have "id_w w = JNum (Fin 2) \<and> id_w w \<noteq> id_w alice_run
          \<and> duration w = JNum (Fin 30) \<and> calories w = JNum (Fin 300)
          \<and> created_at w = JStr ''2024-05-02T09:00:00.000Z''
          \<and> notes_w w = JNull \<and> ai_analysis w = JNull"
    by (simp add: one_store_def)
  with w(1) h1 h2 h3 a show ?thesis by blast
qed

lemma findIndex_first:
  "findIndex P xs \<noteq> - 1 \<Longrightarrow> j < nat (findIndex P xs) \<Longrightarrow> \<not> P (xs ! j)"
proof (induction xs arbitrary: j)
  case Nil
  then show ?case by simp
next
  case (Cons x xs)
  show ?case
  proof (cases "P x")
    case True
    with Cons.prems show ?thesis by simp
  next
    case False
    with Cons.prems have ne: "findIndex P xs \<noteq> - 1" by (auto simp: Let_def split: if_splits)
    from findIndex_found [OF ne] have ge: "0 \<le> findIndex P xs" by simp
    show ?thesis
    proof (cases j)
      case 0
      with False show ?thesis by simp
    next
      case (Suc k)
      with Cons.prems(2) False ne ge have "k < nat (findIndex P xs)"
        by (simp add: Let_def nat_add_distrib)
      from Cons.IH [OF ne this] Suc show ?thesis by simp
    qed
  qed
qed

text \<open>
  C10. A successful update replaces exactly one stored workout: the first one in
  the list whose \<open>id\<close> is \<^verbatim>\<open>Number\<close> of the path parameter and whose \<open>user_id\<close> is the
  \<open>user_id\<close> of the request. The record that replaces it, which is also the body of
  the answer, has the same \<open>id\<close>, \<open>user_id\<close> and \<open>created_at\<close>, and differs from the old
  record in no field other than \<open>type\<close>, \<open>duration\<close>, \<open>calories\<close>, \<open>notes\<close>,
  \<open>ai_analysis\<close> and \<open>updated_at\<close>. Every other position of the list, its length and
  the id counter are unchanged.
\<close>

theorem update_frame:
  assumes ok: "status (fst (put_workouts conv now disk ident reqbody s)) = 200"
  shows "\<exists>i w. i < length (workouts s)
           \<and> owned_by conv ident (js_prop reqbody ''user_id'') (workouts s ! i)
           \<and> (\<forall>j < i. \<not> owned_by conv ident (js_prop reqbody ''user_id'') (workouts s ! j))
           \<and> fst (put_workouts conv now disk ident reqbody s) = Response 200 (WorkoutBody w)
           \<and> workouts (snd (put_workouts conv now disk ident reqbody s)) = (workouts s)[i := w]
           \<and> id_w w = id_w (workouts s ! i)
           \<and> user_id w = user_id (workouts s ! i)
           \<and> created_at w = created_at (workouts s ! i)
           \<and> w\<lparr>type_w := type_w (workouts s ! i), duration := duration (workouts s ! i),
                calories := calories (workouts s ! i), notes_w := notes_w (workouts s ! i),
                ai_analysis := ai_analysis (workouts s ! i),
                updated_at := updated_at (workouts s ! i)\<rparr> = workouts s ! i
           \<and> (\<forall>j < length (workouts s). j \<noteq> i \<longrightarrow>
                 workouts (snd (put_workouts conv now disk ident reqbody s)) ! j = workouts s ! j)
           \<and> length (workouts (snd (put_workouts conv now disk ident reqbody s)))
                 = length (workouts s)
           \<and> nextWorkoutId (snd (put_workouts conv now disk ident reqbody s)) = nextWorkoutId s"
proof -
  let ?P = "owned_by conv ident (js_prop reqbody ''user_id'')"
  let ?k = "findIndex ?P (workouts s)"
  from ok have ne: "?k \<noteq> - 1"
    by (auto simp: put_workouts_def Let_def split: if_splits)
  from findIndex_found [OF ne] have lt: "nat ?k < length (workouts s)"
    and sel: "?P (workouts s ! nat ?k)" by simp_all
  from findIndex_first [OF ne] have first: "\<forall>j < nat ?k. \<not> ?P (workouts s ! j)" by blast
  show ?thesis
    apply (rule exI [where x = "nat ?k"])
    using ne lt sel first
    apply (simp add: put_workouts_def Let_def saveWorkouts_def)
    done
qed

theorem update_frame_witness:
  "status (fst (put_workouts example_conv ''2024-05-02T09:00:00.000Z'' True ''2''
                  alice_update two_store)) = 200
   \<and> (\<exists>w. fst (put_workouts example_conv ''2024-05-02T09:00:00.000Z'' True ''2''
                  alice_update two_store) = Response 200 (WorkoutBody w)
          \<and> workouts (snd (put_workouts example_conv ''2024-05-02T09:00:00.000Z'' True ''2''
                  alice_update two_store)) = [bob_walk, w]
          \<and> id_w w = JNum (Fin 2) \<and> user_id w = JStr ''alice''
          \<and> created_at w = JStr ''2024-05-01T08:00:00.000Z'')
   \<and> workouts (snd (put_workouts example_conv ''2024-05-02T09:00:00.000Z'' True ''2''
                  alice_update two_store)) ! 0 = bob_walk
   \<and> nextWorkoutId (snd (put_workouts example_conv ''2024-05-02T09:00:00.000Z'' True ''2''
                  alice_update two_store)) = 3"
proof -
  let ?r = "put_workouts example_conv ''2024-05-02T09:00:00.000Z'' True ''2''
              alice_update two_store"
  have c2: "example_conv (JStr ''2'') = Fin 2"
    by (simp add: example_conv_def digits_val_def)
  have h: "status (fst ?r) = 200"
    by (simp add: put_workouts_def Let_def two_store_def bob_walk_def alice_swim_def
        alice_update_def js_prop_def owned_by_def c2)
  have notbob: "\<not> owned_by example_conv ''2'' (js_prop alice_update ''user_id'') bob_walk"
    by (simp add: owned_by_def bob_walk_def alice_update_def js_prop_def)
  from update_frame [OF h] obtain i w where iw:
    "i < length (workouts two_store)"
    "owned_by example_conv ''2'' (js_prop alice_update ''user_id'') (workouts two_store ! i)"
    "fst ?r = Response 200 (WorkoutBody w)"
    "workouts (snd ?r) = (workouts two_store)[i := w]"
    "id_w w = id_w (workouts two_store ! i)"
    "user_id w = user_id (workouts two_store ! i)"
    "created_at w = created_at (workouts two_store ! i)"
    "nextWorkoutId (snd ?r) = nextWorkoutId two_store"
    by blast
  from iw(1) have "i = 0 \<or> i = 1" by (auto simp: two_store_def)
  moreover have "i \<noteq> 0"
  proof
    assume "i = 0"
    with iw(2) have "owned_by example_conv ''2'' (js_prop alice_update ''user_id'') bob_walk"
      by (simp add: two_store_def)
    with notbob show False by simp
  qed
  ultimately have i: "i = 1" by simp
  from iw i have a: "workouts (snd ?r) = [bob_walk, w]"
    "id_w w = JNum (Fin 2)" "user_id w = JStr ''alice''"
    "created_at w = JStr ''2024-05-01T08:00:00.000Z''"
    "nextWorkoutId (snd ?r) = 3"
    by (simp_all add: two_store_def alice_swim_def)
  from a(1) have b: "workouts (snd ?r) ! 0 = bob_walk" by simp
  from h iw(3) a b show ?thesis by blast
qed

text \<open>The condition \<open>store_ok\<close> under which C5 gives fresh ids is an invariant: the
  empty store has it, and create, update and delete keep it.\<close>

lemma is_integer_Suc: "is_integer r \<Longrightarrow> is_integer (r + 1)"
  by (simp add: is_integer_def)

lemma id_below_mono: "id_below n w \<Longrightarrow> n \<le> m \<Longrightarrow> id_below m w"
  by (auto simp: id_below_def split: jsval.splits jsnum.splits)

lemma store_ok_empty: "store_ok empty_store"
  by (simp add: store_ok_def empty_store_def is_integer_def)

lemma store_ok_post:
  assumes "store_ok s"
  shows "store_ok (snd (post_workouts conv now disk reqbody s))"
proof -
  let ?s' = "snd (post_workouts conv now disk reqbody s)"
  from assms have i: "is_integer (nextWorkoutId s)" and p: "0 < nextWorkoutId s"
    and b: "\<forall>w \<in> set (workouts s). id_below (nextWorkoutId s) w"
    by (simp_all add: store_ok_def list_all_iff)
  have "?s' = s \<or> (\<exists>w. workouts ?s' = workouts s @ [w]
                      \<and> nextWorkoutId ?s' = nextWorkoutId s + 1
                      \<and> id_w w = JNum (Fin (nextWorkoutId s)))"
    by (simp add: post_workouts_def Let_def saveWorkouts_def)
  then show ?thesis
  proof
    assume "?s' = s"
    with assms show ?thesis by simp
  next
    assume "\<exists>w. workouts ?s' = workouts s @ [w]
                      \<and> nextWorkoutId ?s' = nextWorkoutId s + 1
                      \<and> id_w w = JNum (Fin (nextWorkoutId s))"
    then obtain w where w: "workouts ?s' = workouts s @ [w]"
      "nextWorkoutId ?s' = nextWorkoutId s + 1" "id_w w = JNum (Fin (nextWorkoutId s))"
      by blast
    from b have "\<forall>v \<in> set (workouts s). id_below (nextWorkoutId s + 1) v"
      by (auto intro: id_below_mono)
    moreover from w(3) have "id_below (nextWorkoutId s + 1) w"
      by (simp add: id_below_def)
    ultimately show ?thesis
      using i p w by (simp add: store_ok_def list_all_iff is_integer_Suc)
  qed
qed

lemma put_effect:
  assumes "findIndex (owned_by conv ident (js_prop reqbody ''user_id'')) (workouts s) \<noteq> - 1"
  shows "\<exists>i w. i < length (workouts s)
           \<and> fst (put_workouts conv now disk ident reqbody s) = Response 200 (WorkoutBody w)
           \<and> id_w w = id_w (workouts s ! i)
           \<and> workouts (snd (put_workouts conv now disk ident reqbody s)) = (workouts s)[i := w]
           \<and> nextWorkoutId (snd (put_workouts conv now disk ident reqbody s)) = nextWorkoutId s"
proof -
  let ?k = "findIndex (owned_by conv ident (js_prop reqbody ''user_id'')) (workouts s)"
  from findIndex_found [OF assms] have lt: "nat ?k < length (workouts s)" by simp
  show ?thesis
    apply (rule exI [where x = "nat ?k"])
    using assms lt
    apply (simp add: put_workouts_def Let_def saveWorkouts_def)
    done
qed

lemma store_ok_put:
  assumes "store_ok s"
  shows "store_ok (snd (put_workouts conv now disk ident reqbody s))"
proof (cases "findIndex (owned_by conv ident (js_prop reqbody ''user_id'')) (workouts s) = - 1")
  case True
  with assms show ?thesis
    by (simp add: put_workouts_def Let_def)
next
  case False
  from put_effect [OF False] obtain i w where iw:
    "i < length (workouts s)"
    "id_w w = id_w (workouts s ! i)"
    "workouts (snd (put_workouts conv now disk ident reqbody s)) = (workouts s)[i := w]"
    "nextWorkoutId (snd (put_workouts conv now disk ident reqbody s)) = nextWorkoutId s"
    by blast
  from assms iw(1) have "id_below (nextWorkoutId s) (workouts s ! i)"
    by (simp add: store_ok_def list_all_length)
  with iw(2) have "id_below (nextWorkoutId s) w" by (simp add: id_below_def)
  with assms iw show ?thesis
    by (auto simp: store_ok_def list_all_iff dest!: set_update_subset_insert [THEN subsetD])
qed

lemma store_ok_delete:
  assumes "store_ok s"
  shows "store_ok (snd (delete_workouts conv disk ident uid s))"
  using assms
  by (auto simp: delete_workouts_def Let_def saveWorkouts_def store_ok_def list_all_iff
      dest: in_set_takeD in_set_dropD)

section \<open>Properties of the analysis relay\<close>

lemma scan_fields_obj:
  "scan_fields (JObj kvs) fs
     = Inr (case find (\<lambda>f. truthy (js_prop kvs f)) fs of
              None \<Rightarrow> JUndefined | Some f \<Rightarrow> js_prop kvs f)"
  by (induction fs) auto

lemma find_Some_truthy: "find P xs = Some x \<Longrightarrow> P x"
  by (induction xs) (auto split: if_splits)

text \<open>
  C7, as the claim states it, fails: the chain tests the members for truthiness,
  not for presence. A response with \<open>data\<close> present but empty and \<open>output\<close> set
  yields the value of \<open>output\<close>, not the value of \<open>data\<close>.
\<close>

theorem empty_data_counterexample:
  "js_get empty_data_response ''data'' = Inr (JStr [])
   \<and> extract_analysis example_stringify empty_data_response = Inr (JStr ''y'')
   \<and> extract_analysis example_stringify empty_data_response \<noteq> Inr (JStr [])
   \<and> sendToWebhook example_stringify empty_data_response = Some (JStr ''y'')"
  by (simp add: empty_data_response_def extract_analysis_def sendToWebhook_def js_prop_def
      possibleFields_def)

text \<open>
  C7, amended. For a response that is not \<^verbatim>\<open>null\<close>, the normalization returns the
  response itself when it is a string; otherwise the value of the member \<open>data\<close> when
  that value is truthy; otherwise the value of the first of \<open>output\<close>, \<open>result\<close>,
  \<open>response\<close>, \<open>message\<close>, \<open>analysis\<close>, in that order, whose value is truthy; otherwise
  the serialization of the whole response. A response that is a number, a boolean
  or an array has none of these members, so it is serialized. The four examples of
  the claim come out as it says, and the client's \<open>sendToWebhook\<close> computes the same
  value.
\<close>

theorem normalization_chain:
  "extract_analysis sfy (JStr z) = Inr (JStr z)
   \<and> (truthy (js_prop kvs ''data'') \<longrightarrow>
        extract_analysis sfy (JObj kvs) = Inr (js_prop kvs ''data''))
   \<and> (\<not> truthy (js_prop kvs ''data'') \<longrightarrow>
        find (\<lambda>f. truthy (js_prop kvs f)) possibleFields = Some f \<longrightarrow>
        extract_analysis sfy (JObj kvs) = Inr (js_prop kvs f))
   \<and> (\<not> truthy (js_prop kvs ''data'') \<longrightarrow>
        find (\<lambda>f. truthy (js_prop kvs f)) possibleFields = None \<longrightarrow>
        extract_analysis sfy (JObj kvs) = Inr (JStr (sfy (JObj kvs))))
   \<and> extract_analysis sfy (JNum n) = Inr (JStr (sfy (JNum n)))
   \<and> extract_analysis sfy (JBool b) = Inr (JStr (sfy (JBool b)))
   \<and> extract_analysis sfy (JArr xs) = Inr (JStr (sfy (JArr xs)))
   \<and> extract_analysis sfy (JObj [(''data'', JStr ''x'')]) = Inr (JStr ''x'')
   \<and> extract_analysis sfy (JObj [(''output'', JStr ''y'')]) = Inr (JStr ''y'')
   \<and> extract_analysis sfy (JObj [(''unrelated'', JNum (Fin 1))])
        = Inr (JStr (sfy (JObj [(''unrelated'', JNum (Fin 1))])))
   \<and> sendToWebhook sfy d = (case extract_analysis sfy d of Inl e \<Rightarrow> None | Inr v \<Rightarrow> Some v)"
proof -
  have p: "extract_analysis sfy (JNum n) = Inr (JStr (sfy (JNum n)))"
    "extract_analysis sfy (JBool b) = Inr (JStr (sfy (JBool b)))"
    "extract_analysis sfy (JArr xs) = Inr (JStr (sfy (JArr xs)))"
    by (simp_all add: extract_analysis_def possibleFields_def)
  have a: "extract_analysis sfy (JStr z) = Inr (JStr z)"
    by (simp add: extract_analysis_def)
  have b: "truthy (js_prop kvs ''data'') \<longrightarrow>
        extract_analysis sfy (JObj kvs) = Inr (js_prop kvs ''data'')"
    by (simp add: extract_analysis_def)
  have c: "\<not> truthy (js_prop kvs ''data'') \<longrightarrow>
        find (\<lambda>f. truthy (js_prop kvs f)) possibleFields = Some f \<longrightarrow>
        extract_analysis sfy (JObj kvs) = Inr (js_prop kvs f)"
    by (auto simp: extract_analysis_def scan_fields_obj dest: find_Some_truthy)
  have d: "\<not> truthy (js_prop kvs ''data'') \<longrightarrow>
        find (\<lambda>f. truthy (js_prop kvs f)) possibleFields = None \<longrightarrow>
        extract_analysis sfy (JObj kvs) = Inr (JStr (sfy (JObj kvs)))"
    by (simp add: extract_analysis_def scan_fields_obj)
  have e: "extract_analysis sfy (JObj [(''data'', JStr ''x'')]) = Inr (JStr ''x'')"
    by (simp add: extract_analysis_def js_prop_def)
  have f: "extract_analysis sfy (JObj [(''output'', JStr ''y'')]) = Inr (JStr ''y'')"
    by (simp add: extract_analysis_def js_prop_def possibleFields_def)
  have g: "extract_analysis sfy (JObj [(''unrelated'', JNum (Fin 1))])
        = Inr (JStr (sfy (JObj [(''unrelated'', JNum (Fin 1))])))"
    by (simp add: extract_analysis_def js_prop_def possibleFields_def)
  have h: "sendToWebhook sfy d
             = (case extract_analysis sfy d of Inl e \<Rightarrow> None | Inr v \<Rightarrow> Some v)"
    by (simp add: sendToWebhook_def extract_analysis_def split: jsval.splits sum.splits)
  from a b c d p e f g h show ?thesis by blast
qed


theorem normalization_chain_witness:
  "truthy (js_prop [(''data'', JStr ''x'')] ''data'')
   \<and> extract_analysis example_stringify (JObj [(''data'', JStr ''x'')]) = Inr (JStr ''x'')
   \<and> \<not> truthy (js_prop [(''result'', JStr ''r''), (''message'', JStr ''m'')] ''data'')
   \<and> find (\<lambda>f. truthy (js_prop [(''result'', JStr ''r''), (''message'', JStr ''m'')] f))
        possibleFields = Some ''result''
   \<and> extract_analysis example_stringify (JObj [(''result'', JStr ''r''), (''message'', JStr ''m'')])
       = Inr (JStr ''r'')
   \<and> \<not> truthy (js_prop [(''unrelated'', JNum (Fin 1))] ''data'')
   \<and> find (\<lambda>f. truthy (js_prop [(''unrelated'', JNum (Fin 1))] f)) possibleFields = None
   \<and> extract_analysis example_stringify (JObj [(''unrelated'', JNum (Fin 1))])
       = Inr (JStr (''{'' @ [CHR 0x22] @ ''unrelated'' @ [CHR 0x22] @ '':1}''))
   \<and> sendToWebhook example_stringify (JStr ''z'') = Some (JStr ''z'')
   \<and> extract_analysis example_stringify (JNum (Fin 7)) = Inr (JStr ''7'')
   \<and> extract_analysis example_stringify (JBool False) = Inr (JStr ''false'')
   \<and> extract_analysis example_stringify (JArr [JNull, JBool True])
       = Inr (JStr ''[null,true]'')"
proof -
  let ?a = "[(''data'', JStr ''x'')]"
  let ?b = "[(''result'', JStr ''r''), (''message'', JStr ''m'')]"
  let ?c = "[(''unrelated'', JNum (Fin 1))]"
  have h1: "truthy (js_prop ?a ''data'')" by (simp add: js_prop_def)
  have h2: "\<not> truthy (js_prop ?b ''data'')" by (simp add: js_prop_def)
  have h3: "find (\<lambda>f. truthy (js_prop ?b f)) possibleFields = Some ''result''"
    by (simp add: js_prop_def possibleFields_def)
  have h4: "\<not> truthy (js_prop ?c ''data'')" by (simp add: js_prop_def)
  have h5: "find (\<lambda>f. truthy (js_prop ?c f)) possibleFields = None"
    by (simp add: js_prop_def possibleFields_def)
  have s: "example_stringify (JObj ?c)
             = ''{'' @ [CHR 0x22] @ ''unrelated'' @ [CHR 0x22] @ '':1}''"
    by (simp add: numeral_2_eq_2)
  have v: "js_prop ?b ''result'' = JStr ''r''" by (simp add: js_prop_def)
  from h1 normalization_chain [where sfy = example_stringify and kvs = ?a]
  have a: "extract_analysis example_stringify (JObj ?a) = Inr (JStr ''x'')" by blast
  from h2 h3 normalization_chain [where sfy = example_stringify and kvs = ?b
      and f = "''result''"]
  have b: "extract_analysis example_stringify (JObj ?b) = Inr (js_prop ?b ''result'')" by blast
  from h4 h5 normalization_chain [where sfy = example_stringify and kvs = ?c]
  have c: "extract_analysis example_stringify (JObj ?c)
             = Inr (JStr (example_stringify (JObj ?c)))" by blast
  from normalization_chain [where sfy = example_stringify and d = "JStr ''z''"
      and z = "''z''"]
  have d: "sendToWebhook example_stringify (JStr ''z'') = Some (JStr ''z'')" by simp
  from normalization_chain [where sfy = example_stringify and n = "Fin 7"
      and b = False and xs = "[JNull, JBool True]"]
  have e: "extract_analysis example_stringify (JNum (Fin 7)) = Inr (JStr ''7'')"
    "extract_analysis example_stringify (JBool False) = Inr (JStr ''false'')"
    "extract_analysis example_stringify (JArr [JNull, JBool True])
       = Inr (JStr ''[null,true]'')"
    by (simp_all add: eval_nat_numeral)
  from h1 h2 h3 h4 h5 a b [unfolded v] c [unfolded s] d e show ?thesis by blast
qed


section \<open>Properties of the subscription gateway\<close>

lemma list_active:
  "reachable st \<Longrightarrow>
     subscriptions_list st cid (Some ''active'') n = Inr (take n (active_of st cid))"
  by (simp add: subscriptions_list_def active_of_def)

lemma has_active_iff: "has_active st cid \<longleftrightarrow> active_of st cid \<noteq> []"
  by (auto simp: has_active_def active_of_def list_ex_iff filter_empty_conv)

lemma take1_nonempty: "0 < length (take (Suc 0) xs) \<longleftrightarrow> xs \<noteq> []"
  by (cases xs) auto

lemma find_in_set: "x \<in> set xs \<Longrightarrow> \<exists>y. find (\<lambda>z. f z = f x) xs = Some y \<and> f y = f x"
  by (induction xs) auto

lemma retrieve_reachable: "customers_retrieve st cid = Inr c \<Longrightarrow> reachable st"
  by (auto simp: customers_retrieve_def split: if_splits)





text \<open>
  C4. The claim does not hold of the code: the handler lists the active
  subscriptions with \<^verbatim>\<open>limit: 1\<close>, so its loop cancels one of them. For a customer
  with two active subscriptions it reports success and one stays active.
\<close>

theorem cancel_leaves_second_subscription:
  "customers_retrieve provider_two ''cus_1'' = Inr cus_alice
   \<and> metadata_userId cus_alice = Some ''alice''
   \<and> active_of provider_two ''cus_1'' = [sub_2, sub_1]
   \<and> fst (cancel_subscription ''cus_1'' ''alice'' provider_two)
       = Response 200 \<lparr>success = True,
                       cancel_message = Some ''Subscription cancelled successfully'',
                       cancel_error = None, cancel_clearData = None\<rparr>
   \<and> active_of (snd (cancel_subscription ''cus_1'' ''alice'' provider_two)) ''cus_1'' = [sub_1]
   \<and> has_active (snd (cancel_subscription ''cus_1'' ''alice'' provider_two)) ''cus_1''"
  by (simp add: cancel_subscription_def customers_retrieve_def subscriptions_list_def
      subscriptions_cancel_def active_of_def has_active_def provider_two_def cus_alice_def
      sub_1_def sub_2_def)

text \<open>What does hold of the owner-validated cancel: once the customer is found and
  the owner tag matches, the answer is a success, also on a second call.\<close>

lemma cancel_call_frame:
  "subscriptions_cancel st sid = Inr st' \<Longrightarrow>
     customer_rows st' = customer_rows st \<and> reachable st' = reachable st
     \<and> session_rows st' = session_rows st"
  by (auto simp: subscriptions_cancel_def split: if_splits option.splits)

lemma cancel_each_frame:
  "customer_rows (snd (cancel_each xs st)) = customer_rows st
   \<and> reachable (snd (cancel_each xs st)) = reachable st"
proof (induction xs arbitrary: st)
  case Nil
  show ?case by simp
next
  case (Cons x xs)
  show ?case
  proof (cases "subscriptions_cancel st (sub_id x)")
    case (Inl e)
    then show ?thesis by simp
  next
    case (Inr st')
    from cancel_call_frame [OF Inr] Cons.IH [of st'] Inr show ?thesis by simp
  qed
qed

lemma cancel_frame:
  "customer_rows (snd (cancel_subscription cid uid st)) = customer_rows st
   \<and> reachable (snd (cancel_subscription cid uid st)) = reachable st"
  using cancel_each_frame [of "take 1 (active_of st cid)" st]
  by (auto simp: cancel_subscription_def subscriptions_list_def active_of_def
      split: sum.splits if_splits prod.splits option.splits)

lemma cancel_listed_ok:
  assumes "reachable st" "a \<in> set (subscription_rows st)"
  shows "\<exists>st'. subscriptions_cancel st (sub_id a) = Inr st'"
proof -
  from find_in_set [OF assms(2), of sub_id] obtain y where
    "find (\<lambda>z. sub_id z = sub_id a) (subscription_rows st) = Some y" by blast
  with assms(1) show ?thesis by (simp add: subscriptions_cancel_def)
qed

lemma cancel_reports_success:
  assumes "customers_retrieve st cid = Inr c" "metadata_userId c = Some uid"
  shows "status (fst (cancel_subscription cid uid st)) = 200
         \<and> success (body (fst (cancel_subscription cid uid st)))"
proof -
  from assms(1) have re: "reachable st" by (rule retrieve_reachable)
  show ?thesis
  proof (cases "active_of st cid")
    case Nil
    with assms re show ?thesis
      by (simp add: cancel_subscription_def list_active)
  next
    case (Cons a rest)
    then have "a \<in> set (active_of st cid)" by simp
    then have "a \<in> set (subscription_rows st)" by (simp add: active_of_def)
    from cancel_listed_ok [OF re this] obtain st' where
      "subscriptions_cancel st (sub_id a) = Inr st'" by blast
    with assms re Cons show ?thesis
      by (simp add: cancel_subscription_def list_active)
  qed
qed

lemma cancel_twice_success:
  assumes "customers_retrieve st cid = Inr c" "metadata_userId c = Some uid"
  shows "status (fst (cancel_subscription cid uid (snd (cancel_subscription cid uid st)))) = 200
         \<and> success (body (fst (cancel_subscription cid uid
                                   (snd (cancel_subscription cid uid st)))))"
proof -
  have "customers_retrieve (snd (cancel_subscription cid uid st)) cid
          = customers_retrieve st cid"
    using cancel_frame [of cid uid st] by (simp add: customers_retrieve_def)
  with assms(1) have "customers_retrieve (snd (cancel_subscription cid uid st)) cid = Inr c"
    by simp
  from cancel_reports_success [OF this assms(2)] show ?thesis .
qed

lemma update_ok:
  assumes "reachable st" "c \<in> set (customer_rows st)" "u \<noteq> []"
  shows "\<exists>c'. customers_update' st (cus_id c) (Some u) = Inr (c', retag st (cus_id c) u)"
proof -
  from find_in_set [OF assms(2), of cus_id] obtain y where
    "find (\<lambda>z. cus_id z = cus_id c) (customer_rows st) = Some y" by blast
  with assms(1,3) show ?thesis
    by (simp add: customers_update'_def retag_def set_meta_def)
qed

lemma find_loop_char:
  assumes "reachable st" "u \<noteq> []"
  shows "set cs \<subseteq> set (customer_rows st) \<Longrightarrow>
     find_loop u cs st
       = (case find (\<lambda>c. metadata_userId c = Some u \<or> has_active st (cus_id c)) cs of
            None \<Rightarrow> (Response 200 (FindResult None), st)
          | Some c \<Rightarrow>
              (Response 200 (FindResult (Some (cus_id c))),
               if metadata_userId c = Some u then st else retag st (cus_id c) u))"
proof (induction cs)
  case Nil
  show ?case by simp
next
  case (Cons c cs)
  then have mem: "c \<in> set (customer_rows st)" and sub: "set cs \<subseteq> set (customer_rows st)"
    by auto
  show ?case
  proof (cases "metadata_userId c = Some u")
    case True
    then show ?thesis by simp
  next
    case untagged: False
    show ?thesis
    proof (cases "has_active st (cus_id c)")
      case True
      from update_ok [OF assms(1) mem assms(2)] obtain c' where
        "customers_update' st (cus_id c) (Some u) = Inr (c', retag st (cus_id c) u)" by blast
      with True untagged assms(1) show ?thesis
        by (simp add: list_active has_active_iff take1_nonempty)
    next
      case False
      with untagged assms(1) Cons.IH [OF sub] show ?thesis
        by (simp add: list_active has_active_iff take1_nonempty)
    qed
  qed
qed

text \<open>
  C6, as the claim states it, fails: the loop decides customer by customer, so an
  untagged customer with an active subscription that is listed before a customer
  tagged with the user is the one returned (and retagged).
\<close>

theorem untagged_first_counterexample:
  "customers_list provider_shared (Some ''a@example.com'') 10 = Inr [cus_untagged, cus_alice]
   \<and> metadata_userId cus_untagged = None
   \<and> metadata_userId cus_alice = Some ''alice''
   \<and> cus_id cus_alice = ''cus_1''
   \<and> find_customer_by_email (Some ''a@example.com'') (Some ''alice'') provider_shared
       = (Response 200 (FindResult (Some ''cus_2'')), retag provider_shared ''cus_2'' ''alice'')
   \<and> fst (find_customer_by_email (Some ''a@example.com'') (Some ''alice'') provider_shared)
       \<noteq> Response 200 (FindResult (Some ''cus_1''))"
  by (simp add: find_customer_by_email_def absent_def customers_list_def subscriptions_list_def
      customers_update'_def set_meta_def retag_def provider_shared_def cus_untagged_def
      cus_alice_def sub_3_def)

text \<open>
  C6, amended. Among the first ten customers the provider lists for the email, in
  its order, find-customer-by-email returns the first one that is tagged with the
  user id or has an active subscription; when that customer is not tagged with the
  user id it is retagged with it; when there is no such customer the answer is
  \<open>customerId: null\<close> and nothing changes.
\<close>

theorem find_first_tagged_or_active:
  assumes "reachable st" "e \<noteq> []" "u \<noteq> []"
  shows "find_customer_by_email (Some e) (Some u) st
       = (case find (\<lambda>c. metadata_userId c = Some u \<or> has_active st (cus_id c))
                 (take 10 (filter (\<lambda>c. cus_email c = Some e) (customer_rows st))) of
            None \<Rightarrow> (Response 200 (FindResult None), st)
          | Some c \<Rightarrow>
              (Response 200 (FindResult (Some (cus_id c))),
               if metadata_userId c = Some u then st else retag st (cus_id c) u))"
proof -
  let ?cs = "take 10 (filter (\<lambda>c. cus_email c = Some e) (customer_rows st))"
  have "set ?cs \<subseteq> set (customer_rows st)"
    by (meson filter_is_subset set_take_subset subset_trans)
  from find_loop_char [OF assms(1) assms(3) this] assms show ?thesis
    by (simp add: find_customer_by_email_def absent_def customers_list_def)
qed

theorem find_first_tagged_or_active_witness:
  "reachable provider_shared \<and> ''a@example.com'' \<noteq> [] \<and> ''alice'' \<noteq> []
   \<and> find_customer_by_email (Some ''a@example.com'') (Some ''alice'') provider_shared
       = (Response 200 (FindResult (Some ''cus_2'')), retag provider_shared ''cus_2'' ''alice'')
   \<and> find_customer_by_email (Some ''a@example.com'') (Some ''alice'') provider_one
       = (Response 200 (FindResult (Some ''cus_1'')), provider_one)
   \<and> find_customer_by_email (Some ''a@example.com'') (Some ''carol'')
        (provider_one\<lparr>subscription_rows := []\<rparr>)
       = (Response 200 (FindResult None), provider_one\<lparr>subscription_rows := []\<rparr>)"
proof -
  have h: "reachable provider_shared" "''a@example.com'' \<noteq> []" "''alice'' \<noteq> []"
    "reachable provider_one" "''carol'' \<noteq> []"
    "reachable (provider_one\<lparr>subscription_rows := []\<rparr>)"
    by (simp_all add: provider_shared_def provider_one_def)
  have a: "find_customer_by_email (Some ''a@example.com'') (Some ''alice'') provider_shared
       = (Response 200 (FindResult (Some ''cus_2'')), retag provider_shared ''cus_2'' ''alice'')"
    using find_first_tagged_or_active [OF h(1) h(2) h(3)]
    by (simp add: provider_shared_def cus_untagged_def cus_alice_def sub_3_def has_active_def)
  have b: "find_customer_by_email (Some ''a@example.com'') (Some ''alice'') provider_one
       = (Response 200 (FindResult (Some ''cus_1'')), provider_one)"
    using find_first_tagged_or_active [OF h(4) h(2) h(3)]
    by (simp add: provider_one_def cus_alice_def)
  have c: "find_customer_by_email (Some ''a@example.com'') (Some ''carol'')
        (provider_one\<lparr>subscription_rows := []\<rparr>)
       = (Response 200 (FindResult None), provider_one\<lparr>subscription_rows := []\<rparr>)"
    using find_first_tagged_or_active [OF h(6) h(2) h(5)]
    by (simp add: provider_one_def cus_alice_def has_active_def)
  from h a b c show ?thesis by simp
qed

lemma has_active_rows:
  "subscription_rows a = subscription_rows b \<Longrightarrow> has_active a cid = has_active b cid"
  by (simp add: has_active_def)

lemma find_Some_holds: "find P xs = Some x \<Longrightarrow> P x \<and> x \<in> set xs"
  by (induction xs) (auto split: if_splits)

lemma modify_leaves_rest:
  assumes "customers_update' st cid uid = Inr (c', st')"
  shows "cus_id c' = cid \<and> subscription_rows st' = subscription_rows st
         \<and> session_rows st' = session_rows st \<and> reachable st' = reachable st"
  using assms
  by (auto simp: customers_update'_def split: if_splits option.splits dest: find_Some_holds)

lemma create_leaves_rest:
  assumes "customers_create st nc uid email = Inr (c', st')"
  shows "cus_id c' = nc \<and> subscription_rows st' = subscription_rows st
         \<and> session_rows st' = session_rows st \<and> reachable st' = reachable st"
  using assms
  by (auto simp: customers_create_def Let_def split: if_splits)

lemma listed_member:
  assumes "customers_list st email n = Inr cs"
  shows "reachable st \<and> set cs \<subseteq> set (customer_rows st)"
proof -
  from assms have re: "reachable st"
    and cs: "cs = take n (filter (\<lambda>c. email = None \<or> cus_email c = email) (customer_rows st))"
    by (auto simp: customers_list_def split: if_splits)
  have "set cs \<subseteq> set (customer_rows st)"
    unfolding cs by (meson filter_is_subset set_take_subset subset_trans)
  with re show ?thesis by simp
qed

lemma update_total:
  assumes "reachable st" "c \<in> set (customer_rows st)"
  shows "\<exists>p. customers_update' st (cus_id c) uid = Inr p"
proof -
  from find_in_set [OF assms(2), of cus_id] obtain y where
    "find (\<lambda>z. cus_id z = cus_id c) (customer_rows st) = Some y" by blast
  with assms(1) show ?thesis by (simp add: customers_update'_def)
qed

lemma checkout_for_active:
  "reachable st \<Longrightarrow> has_active st (cus_id c) \<Longrightarrow>
     checkout_for price ns c st = (Response 400 (CheckoutError already_subscribed), st)"
  by (simp add: checkout_for_def list_active has_active_iff take1_nonempty)

lemma checkout_for_effect:
  "subscription_rows (snd (checkout_for price ns c st)) = subscription_rows st
   \<and> (status (fst (checkout_for price ns c st)) = 200 \<longrightarrow>
        (\<exists>x. session_rows (snd (checkout_for price ns c st)) = x # session_rows st
            \<and> session_id x = ns \<and> session_customer x = cus_id c
            \<and> fst (checkout_for price ns c st) = Response 200 (CheckoutSession ns (cus_id c)))
        \<and> \<not> has_active st (cus_id c))
   \<and> (status (fst (checkout_for price ns c st)) \<noteq> 200 \<longrightarrow>
        session_rows (snd (checkout_for price ns c st)) = session_rows st)"
proof (cases "reachable st")
  case False
  then show ?thesis by (simp add: checkout_for_def subscriptions_list_def)
next
  case True
  show ?thesis
  proof (cases "has_active st (cus_id c)")
    case True
    with \<open>reachable st\<close> show ?thesis by (simp add: checkout_for_active)
  next
    case False
    with \<open>reachable st\<close> show ?thesis
      by (auto simp: checkout_for_def list_active has_active_iff checkout_sessions_create_def
          Let_def split: option.splits)
  qed
qed

text \<open>Either the handler stops with a 500 before the subscription check, or it
  reaches the check with the customer the request names: the first one listed for
  the email, or the one just created.\<close>

lemma checkout_resolves:
  "(status (fst (create_checkout_session price userId email nc ns st)) = 500
      \<and> snd (create_checkout_session price userId email nc ns st) = st)
   \<or> (\<exists>c' st'. create_checkout_session price userId email nc ns st
                   = checkout_for price ns c' st'
          \<and> subscription_rows st' = subscription_rows st
          \<and> session_rows st' = session_rows st
          \<and> (\<forall>c rest. customers_list st email 1 = Inr (c # rest) \<longrightarrow> cus_id c' = cus_id c)
          \<and> (customers_list st email 1 = Inr [] \<longrightarrow> cus_id c' = nc))"
proof (cases "customers_list st email 1")
  case (Inl e)
  then show ?thesis by (simp add: create_checkout_session_def)
next
  case (Inr cs)
  show ?thesis
  proof (cases cs)
    case Nil
    show ?thesis
    proof (cases "customers_create st nc userId email")
      case (Inl e)
      with Inr Nil show ?thesis by (simp add: create_checkout_session_def)
    next
      case inr: (Inr p)
      obtain c' st' where p: "p = (c', st')" by (cases p)
      from create_leaves_rest [OF inr [unfolded p]]
      have fr: "cus_id c' = nc" "subscription_rows st' = subscription_rows st"
        "session_rows st' = session_rows st" by simp_all
      from Inr Nil inr p
      have "create_checkout_session price userId email nc ns st = checkout_for price ns c' st'"
        by (simp add: create_checkout_session_def)
      with fr Inr Nil show ?thesis by auto
    qed
  next
    case (Cons c0 rest0)
    show ?thesis
    proof (cases "metadata_userId c0 \<noteq> userId")
      case False
      with Inr Cons
      have "create_checkout_session price userId email nc ns st = checkout_for price ns c0 st"
        by (simp add: create_checkout_session_def)
      with Inr Cons show ?thesis by auto
    next
      case True
      show ?thesis
      proof (cases "customers_update' st (cus_id c0) userId")
        case (Inl e)
        with Inr Cons True show ?thesis by (simp add: create_checkout_session_def)
      next
        case inr: (Inr p)
        obtain c' st' where p: "p = (c', st')" by (cases p)
        from modify_leaves_rest [OF inr [unfolded p]]
        have fr: "cus_id c' = cus_id c0" "subscription_rows st' = subscription_rows st"
          "session_rows st' = session_rows st" by simp_all
        from Inr Cons True inr p
        have "create_checkout_session price userId email nc ns st
                = checkout_for price ns c' st'"
          by (simp add: create_checkout_session_def)
        with fr Inr Cons show ?thesis by auto
      qed
    qed
  qed
qed

text \<open>The answer does not depend on the sessions the provider already holds.\<close>

lemma checkout_for_ignores_sessions:
  "fst (checkout_for price ns c (st\<lparr>session_rows := xs\<rparr>)) = fst (checkout_for price ns c st)"
  by (simp add: checkout_for_def subscriptions_list_def checkout_sessions_create_def Let_def
      split: option.splits)

lemma checkout_ignores_sessions:
  "fst (create_checkout_session price userId email nc ns (st\<lparr>session_rows := xs\<rparr>))
     = fst (create_checkout_session price userId email nc ns st)"
proof -
  have l: "customers_list (st\<lparr>session_rows := xs\<rparr>) email 1 = customers_list st email 1"
    by (simp add: customers_list_def)
  have u: "\<And>cid. customers_update' (st\<lparr>session_rows := xs\<rparr>) cid userId
             = map_sum id (\<lambda>(c, t). (c, t\<lparr>session_rows := xs\<rparr>)) (customers_update' st cid userId)"
    by (simp add: customers_update'_def split: option.splits)
  have k: "customers_create (st\<lparr>session_rows := xs\<rparr>) nc userId email
             = map_sum id (\<lambda>(c, t). (c, t\<lparr>session_rows := xs\<rparr>)) (customers_create st nc userId email)"
    by (simp add: customers_create_def Let_def)
  show ?thesis
    unfolding create_checkout_session_def l u k
    by (auto simp: checkout_for_ignores_sessions split: sum.splits list.splits)
qed

text \<open>
  C8, as the claim states it, fails in its conclusion: the handler looks only at
  subscriptions that are already active, not at checkout sessions that are still
  open. Two requests in a row for a customer without an active subscription are
  both answered 200, each with a session for that customer; once the provider has
  completed both, the customer holds two active subscriptions.
\<close>

theorem two_sessions_counterexample:
  "\<not> has_active provider_idle ''cus_1''
   \<and> fst first_checkout = Response 200 (CheckoutSession ''cs_1'' ''cus_1'')
   \<and> \<not> has_active (snd first_checkout) ''cus_1''
   \<and> fst second_checkout = Response 200 (CheckoutSession ''cs_2'' ''cus_1'')
   \<and> map session_customer (session_rows (snd second_checkout)) = [''cus_1'', ''cus_1'']
   \<and> map sub_id (active_of both_paid ''cus_1'') = [''sub_9'', ''sub_8'']"
  by (simp add: both_paid_def second_checkout_def first_checkout_def provider_idle_def
      cus_alice_def create_checkout_session_def checkout_for_def customers_list_def
      subscriptions_list_def checkout_sessions_create_def checkout_completed_def
      has_active_def active_of_def Let_def)

text \<open>
  C8, amended. When the customer the request names (the first one the provider
  lists for the email) has an active subscription at the time of the request, the
  request is answered 400 with the message \<open>already_subscribed\<close> and no checkout
  session is started. A session is started only with a 200 answer, and then it is
  one session, for the customer the request names (the listed one, or the one just
  created when none is listed), who has no active subscription at that time. The
  handler itself adds no subscription, and its answer does not depend on the
  sessions that are already open.
\<close>

theorem checkout_rejects_active:
  "(customers_list st email 1 = Inr (c # rest) \<and> has_active st (cus_id c) \<longrightarrow>
      fst (create_checkout_session price userId email nc ns st)
        = Response 400 (CheckoutError already_subscribed)
      \<and> session_rows (snd (create_checkout_session price userId email nc ns st))
          = session_rows st)
   \<and> (status (fst (create_checkout_session price userId email nc ns st)) = 200 \<longrightarrow>
        (\<exists>x. session_rows (snd (create_checkout_session price userId email nc ns st))
                = x # session_rows st
            \<and> session_id x = ns
            \<and> fst (create_checkout_session price userId email nc ns st)
                = Response 200 (CheckoutSession ns (session_customer x))
            \<and> (\<forall>c' rest'. customers_list st email 1 = Inr (c' # rest') \<longrightarrow>
                   session_customer x = cus_id c')
            \<and> (customers_list st email 1 = Inr [] \<longrightarrow> session_customer x = nc)
            \<and> \<not> has_active st (session_customer x)))
   \<and> (status (fst (create_checkout_session price userId email nc ns st)) \<noteq> 200 \<longrightarrow>
        session_rows (snd (create_checkout_session price userId email nc ns st))
          = session_rows st)
   \<and> subscription_rows (snd (create_checkout_session price userId email nc ns st))
       = subscription_rows st
   \<and> fst (create_checkout_session price userId email nc ns (st\<lparr>session_rows := held\<rparr>))
       = fst (create_checkout_session price userId email nc ns st)"
proof -
  let ?r = "create_checkout_session price userId email nc ns st"
  have eff: "subscription_rows (snd ?r) = subscription_rows st
     \<and> (status (fst ?r) = 200 \<longrightarrow>
          (\<exists>x. session_rows (snd ?r) = x # session_rows st
              \<and> session_id x = ns
              \<and> fst ?r = Response 200 (CheckoutSession ns (session_customer x))
              \<and> (\<forall>c' rest'. customers_list st email 1 = Inr (c' # rest') \<longrightarrow>
                     session_customer x = cus_id c')
              \<and> (customers_list st email 1 = Inr [] \<longrightarrow> session_customer x = nc)
              \<and> \<not> has_active st (session_customer x)))
     \<and> (status (fst ?r) \<noteq> 200 \<longrightarrow> session_rows (snd ?r) = session_rows st)"
    using checkout_resolves [of price userId email nc ns st]
  proof
    assume "status (fst ?r) = 500 \<and> snd ?r = st"
    then show ?thesis by simp
  next
    assume "\<exists>c' st'. ?r = checkout_for price ns c' st'
          \<and> subscription_rows st' = subscription_rows st
          \<and> session_rows st' = session_rows st
          \<and> (\<forall>c rest. customers_list st email 1 = Inr (c # rest) \<longrightarrow> cus_id c' = cus_id c)
          \<and> (customers_list st email 1 = Inr [] \<longrightarrow> cus_id c' = nc)"
    then obtain c' st' where r: "?r = checkout_for price ns c' st'"
      and fr: "subscription_rows st' = subscription_rows st" "session_rows st' = session_rows st"
      and who: "\<forall>c rest. customers_list st email 1 = Inr (c # rest) \<longrightarrow> cus_id c' = cus_id c"
        "customers_list st email 1 = Inr [] \<longrightarrow> cus_id c' = nc"
      by blast
    from checkout_for_effect [of price ns c' st'] fr who has_active_rows [OF fr(1)]
    show ?thesis unfolding r by auto
  qed
  have a: "customers_list st email 1 = Inr (c # rest) \<and> has_active st (cus_id c) \<longrightarrow>
      fst ?r = Response 400 (CheckoutError already_subscribed)
      \<and> session_rows (snd ?r) = session_rows st"
  proof (intro impI, elim conjE)
    assume l: "customers_list st email 1 = Inr (c # rest)" and act: "has_active st (cus_id c)"
    from listed_member [OF l] have re: "reachable st" and mem: "c \<in> set (customer_rows st)"
      by simp_all
    show "fst ?r = Response 400 (CheckoutError already_subscribed)
          \<and> session_rows (snd ?r) = session_rows st"
    proof (cases "metadata_userId c \<noteq> userId")
      case False
      with l re act show ?thesis
        by (simp add: create_checkout_session_def checkout_for_active)
    next
      case True
      show ?thesis
      proof (cases "customers_update' st (cus_id c) userId")
        case (Inl e)
        with update_total [OF re mem, of userId] have False by simp
        then show ?thesis ..
      next
        case (Inr p)
        obtain c' st' where p: "p = (c', st')" by (cases p)
        from modify_leaves_rest [OF Inr [unfolded p]] re act
        have "reachable st'" "has_active st' (cus_id c')" "session_rows st' = session_rows st"
          by (simp_all add: has_active_def)
        with l True Inr p show ?thesis
          by (simp add: create_checkout_session_def checkout_for_active)
      qed
    qed
  qed
  from a eff checkout_ignores_sessions [where st = st and xs = held]
  show ?thesis by blast
qed

theorem checkout_rejects_active_witness:
  "customers_list provider_one (Some ''a@example.com'') 1 = Inr [cus_alice]
   \<and> has_active provider_one (cus_id cus_alice)
   \<and> fst (create_checkout_session (Some ''price_year'') (Some ''alice'') (Some ''a@example.com'')
             ''cus_9'' ''cs_1'' provider_one)
       = Response 400 (CheckoutError already_subscribed)
   \<and> session_rows (snd (create_checkout_session (Some ''price_year'') (Some ''alice'')
                          (Some ''a@example.com'') ''cus_9'' ''cs_1'' provider_one)) = []
   \<and> customers_list provider_one (Some ''b@example.com'') 1 = Inr []
   \<and> status (fst (create_checkout_session (Some ''price_year'') (Some ''bob'')
                     (Some ''b@example.com'') ''cus_9'' ''cs_1'' provider_one)) = 200
   \<and> (\<exists>x. session_rows (snd (create_checkout_session (Some ''price_year'') (Some ''bob'')
                     (Some ''b@example.com'') ''cus_9'' ''cs_1'' provider_one)) = [x]
          \<and> session_id x = ''cs_1'' \<and> session_customer x = ''cus_9''
          \<and> \<not> has_active provider_one (session_customer x))
   \<and> customers_list provider_idle (Some ''a@example.com'') 1 = Inr [cus_alice]
   \<and> status (fst first_checkout) = 200
   \<and> (\<exists>x. session_rows (snd first_checkout) = [x]
          \<and> session_id x = ''cs_1'' \<and> session_customer x = cus_id cus_alice)"
proof -
  let ?new = "create_checkout_session (Some ''price_year'') (Some ''bob'')
                (Some ''b@example.com'') ''cus_9'' ''cs_1'' provider_one"
  have h1: "customers_list provider_one (Some ''a@example.com'') 1 = Inr [cus_alice]
            \<and> has_active provider_one (cus_id cus_alice)"
    by (simp add: customers_list_def provider_one_def cus_alice_def has_active_def sub_1_def)
  have h2: "status (fst ?new) = 200"
    by (simp add: create_checkout_session_def customers_list_def customers_create_def
        checkout_for_def subscriptions_list_def checkout_sessions_create_def set_meta_def
        provider_one_def cus_alice_def sub_1_def Let_def)
  have h3: "customers_list provider_one (Some ''b@example.com'') 1 = Inr []"
    by (simp add: customers_list_def provider_one_def cus_alice_def)
  have h4: "customers_list provider_idle (Some ''a@example.com'') 1 = Inr [cus_alice]"
    by (simp add: customers_list_def provider_idle_def cus_alice_def)
  have h5: "status (fst first_checkout) = 200"
    by (simp add: first_checkout_def provider_idle_def cus_alice_def
        create_checkout_session_def checkout_for_def customers_list_def
        subscriptions_list_def checkout_sessions_create_def Let_def)
  have e: "session_rows provider_one = []" "session_rows provider_idle = []"
    by (simp_all add: provider_one_def provider_idle_def)
  from h1 checkout_rejects_active [where st = provider_one and email = "Some ''a@example.com''"
      and c = cus_alice and rest = "[]" and price = "Some ''price_year''"
      and userId = "Some ''alice''" and nc = "''cus_9''" and ns = "''cs_1''"]
  have a: "fst (create_checkout_session (Some ''price_year'') (Some ''alice'')
                  (Some ''a@example.com'') ''cus_9'' ''cs_1'' provider_one)
             = Response 400 (CheckoutError already_subscribed)
           \<and> session_rows (snd (create_checkout_session (Some ''price_year'') (Some ''alice'')
                          (Some ''a@example.com'') ''cus_9'' ''cs_1'' provider_one)) = []"
    unfolding e by blast
  from h2 h3 checkout_rejects_active [where st = provider_one and email = "Some ''b@example.com''"
      and price = "Some ''price_year''"
      and userId = "Some ''bob''" and nc = "''cus_9''" and ns = "''cs_1''"]
  have b: "\<exists>x. session_rows (snd ?new) = [x]
          \<and> session_id x = ''cs_1'' \<and> session_customer x = ''cus_9''
          \<and> \<not> has_active provider_one (session_customer x)"
    unfolding e by blast
  from h4 h5 checkout_rejects_active [where st = provider_idle and email = "Some ''a@example.com''"
      and price = "Some ''price_month''"
      and userId = "Some ''alice''" and nc = "''cus_8''" and ns = "''cs_1''",
      folded first_checkout_def]
  have c: "\<exists>x. session_rows (snd first_checkout) = [x]
          \<and> session_id x = ''cs_1'' \<and> session_customer x = cus_id cus_alice"
    unfolding e by blast
  from h1 h2 h3 h4 h5 a b c show ?thesis by blast
qed

section \<open>Properties of the webhook receiver\<close>

text \<open>
  C9. A payload whose signature does not verify is answered 400 and leaves no
  trace but the logged error: no event is read. The answer \<open>received: true\<close> is
  given only for a payload that verified, and the one event processed is the
  verified one. The handler has no access to the workout store or the provider.
\<close>

theorem webhook_rejects_unverified:
  "(constructEvent raw sig secret = Inl msg \<longrightarrow>
      webhook constructEvent raw sig secret
        = (Response 400 (WebhookError (''Webhook Error: '' @ msg)), [LoggedWebhookError msg]))
   \<and> (fst (webhook constructEvent raw sig secret) = Response 200 (Received True) \<longrightarrow>
        (\<exists>event t. constructEvent raw sig secret = Inr event \<and> process_event event = Inr t
            \<and> snd (webhook constructEvent raw sig secret) = [t]))
   \<and> (status (fst (webhook constructEvent raw sig secret)) = 200
        \<or> status (fst (webhook constructEvent raw sig secret)) = 400)"
  by (auto simp: webhook_def split: sum.splits)

theorem webhook_rejects_unverified_witness:
  "example_constructEvent ''{}'' (Some ''t=1,v1=forged'') (Some ''whsec_1'')
     = Inl ''No signatures found matching the expected signature for payload.''
   \<and> webhook example_constructEvent ''{}'' (Some ''t=1,v1=forged'') (Some ''whsec_1'')
     = (Response 400
          (WebhookError (''Webhook Error: ''
             @ ''No signatures found matching the expected signature for payload.'')),
        [LoggedWebhookError ''No signatures found matching the expected signature for payload.''])
   \<and> fst (webhook example_constructEvent ''{}'' (Some ''t=1,v1=good'') (Some ''whsec_1''))
     = Response 200 (Received True)
   \<and> example_constructEvent ''{}'' (Some ''t=1,v1=good'') (Some ''whsec_1'') = Inr signed_event"
proof -
  have h1: "example_constructEvent ''{}'' (Some ''t=1,v1=forged'') (Some ''whsec_1'')
     = Inl ''No signatures found matching the expected signature for payload.''"
    by (simp add: example_constructEvent_def)
  have h2: "fst (webhook example_constructEvent ''{}'' (Some ''t=1,v1=good'') (Some ''whsec_1''))
     = Response 200 (Received True)"
    by (simp add: webhook_def example_constructEvent_def signed_event_def process_event_def
        subscription_events_def js_prop_def)
  have h3: "example_constructEvent ''{}'' (Some ''t=1,v1=good'') (Some ''whsec_1'')
              = Inr signed_event"
    by (simp add: example_constructEvent_def)
  from h1 webhook_rejects_unverified [where constructEvent = example_constructEvent
      and raw = "''{}''" and sig = "Some ''t=1,v1=forged''" and secret = "Some ''whsec_1''"
      and msg = "''No signatures found matching the expected signature for payload.''"]
  have a: "webhook example_constructEvent ''{}'' (Some ''t=1,v1=forged'') (Some ''whsec_1'')
     = (Response 400
          (WebhookError (''Webhook Error: ''
             @ ''No signatures found matching the expected signature for payload.'')),
        [LoggedWebhookError ''No signatures found matching the expected signature for payload.''])"
    by blast
  from h1 a h2 h3 show ?thesis by blast
qed


end
